theory Spec2Isabelle
  imports Complex_Main "HOL-Library.Word" "HOL-Library.Char_ord" "HOL-Library.List_Lexorder"
begin

section \<open>SwiftCare: the dispatch engine and the request lifecycle\<close>

text \<open>
  The program is a web application over a hosted PostgreSQL database. Its logic lives in
  three places, all embedded here:
  \<^item> the SQL migrations: the tables, the row-level security policies, the trigger that
    generates a tracking code and the trigger \<open>auto_dispatch_ambulance\<close>;
  \<^item> the administrator's dashboard: \<open>fetchData\<close>, \<open>assignAmbulance\<close>, the list that
    offers the assignment, and \<open>assignDriverToAmbulance\<close>;
  \<^item> the driver's dashboard: \<open>fetchData\<close>, \<open>updateRequestStatus\<close> and the list that
    offers the status change.

  Coordinates are \<open>DOUBLE PRECISION\<close> columns; the model computes with exact reals.
  Identifiers are UUIDs, modelled as natural numbers; timestamps are natural numbers.
  A table is the list of its rows.
\<close>

subsection \<open>The tables\<close>

type_synonym uuid = nat
type_synonym timestamp = nat

text \<open>\<open>CREATE TYPE app_role AS ENUM ('admin', 'driver')\<close>\<close>

datatype app_role = Admin | Driver

text \<open>
  The column \<open>ambulances.status\<close> is text with the check constraint
  \<open>status IN ('available', 'en_route', 'arrived', 'busy', 'offline')\<close>.
\<close>

datatype ambulance_status = Available | Amb_en_route | Amb_arrived | Busy | Offline

text \<open>
  The column \<open>emergency_requests.status\<close> is text with the check constraint
  \<open>status IN ('pending', 'assigned', 'en_route', 'arrived', 'completed', 'cancelled')\<close>.
\<close>

datatype request_status = Pending | Assigned | En_route | Arrived | Completed | Cancelled

record ambulance =
  amb_id :: uuid
  driver_id :: "uuid option"
  plate_number :: string
  amb_status :: ambulance_status
  current_lat :: "real option"
  current_lng :: "real option"
  base_lat :: "real option"
  base_lng :: "real option"
  amb_updated_at :: timestamp

record emergency_request =
  req_id :: uuid
  tracking_code :: string
  requester_phone :: string
  emergency_type :: string
  location_lat :: real
  location_lng :: real
  status :: request_status
  assigned_ambulance_id :: "uuid option"
  assigned_driver_id :: "uuid option"
  created_at :: timestamp
  updated_at :: timestamp
  completed_at :: "timestamp option"

record db =
  ambulances :: "ambulance list"
  emergency_requests :: "emergency_request list"
  user_roles :: "(uuid \<times> app_role) list"

datatype pg_error = Unique_violation | Foreign_key_violation | Rls_violation

text \<open>\<open>has_role(_user_id, _role)\<close>: a row of \<open>user_roles\<close> with that user and role exists.\<close>

definition has_role :: "db \<Rightarrow> uuid \<Rightarrow> app_role \<Rightarrow> bool" where
  "has_role d user_id_arg role_arg =
     list_ex (\<lambda>row. fst row = user_id_arg \<and> snd row = role_arg) (user_roles d)"

subsection \<open>The geo-distance utility (\<open>calculateDistance\<close> of the map component)\<close>

text \<open>
  \<open>Math.atan2(y, x)\<close>, all quadrants. \<open>calculateDistance\<close> calls it on two square roots,
  so only the branches with \<open>x \<ge> 0\<close> and \<open>y \<ge> 0\<close> are ever taken.
\<close>

definition atan2 :: "real \<Rightarrow> real \<Rightarrow> real" where
  "atan2 y x =
     (if 0 < x then arctan (y / x)
      else if x < 0 \<and> 0 \<le> y then arctan (y / x) + pi
      else if x < 0 then arctan (y / x) - pi
      else if 0 < y then pi / 2
      else if y < 0 then - (pi / 2)
      else 0)"

definition calculateDistance :: "real \<Rightarrow> real \<Rightarrow> real \<Rightarrow> real \<Rightarrow> real" where
  "calculateDistance lat1 lng1 lat2 lng2 =
     (let R = 6371;
          dLat = (lat2 - lat1) * pi / 180;
          dLng = (lng2 - lng1) * pi / 180;
          a = sin (dLat / 2) * sin (dLat / 2) +
              cos (lat1 * pi / 180) * cos (lat2 * pi / 180) *
              sin (dLng / 2) * sin (dLng / 2);
          c = 2 * atan2 (sqrt a) (sqrt (1 - a))
      in R * c)"

subsection \<open>The dispatch trigger \<open>auto_dispatch_ambulance\<close>\<close>

definition coalesce :: "'a option \<Rightarrow> 'a \<Rightarrow> 'a" where
  "coalesce v dflt = (case v of None \<Rightarrow> dflt | Some x \<Rightarrow> x)"

text \<open>
  The \<open>distance\<close> column of the trigger's query:
  \<open>SQRT(POWER(COALESCE(a.current_lat, 9.0579) - NEW.location_lat, 2) +
        POWER(COALESCE(a.current_lng, 7.4951) - NEW.location_lng, 2))\<close>.
\<close>

definition distance :: "emergency_request \<Rightarrow> ambulance \<Rightarrow> real" where
  "distance new a =
     sqrt ((coalesce (current_lat a) 9.0579 - location_lat new)\<^sup>2 +
           (coalesce (current_lng a) 7.4951 - location_lng new)\<^sup>2)"

text \<open>The \<open>WHERE\<close> clause: \<open>a.status = 'available' AND a.driver_id IS NOT NULL\<close>.\<close>

definition candidate :: "ambulance \<Rightarrow> bool" where
  "candidate a = (amb_status a = Available \<and> driver_id a \<noteq> None)"

text \<open>
  \<open>SELECT ... INTO nearest_ambulance FROM ambulances a WHERE ... ORDER BY distance ASC
  LIMIT 1\<close>: the first row of the candidates sorted by distance, or no row. The sort of
  the model is stable; SQL leaves the order of rows at equal distance open.
\<close>

definition nearest_ambulance :: "ambulance list \<Rightarrow> emergency_request \<Rightarrow> ambulance option" where
  "nearest_ambulance pool new =
     (case sort_key (distance new) (filter candidate pool) of
        [] \<Rightarrow> None
      | a # rest \<Rightarrow> Some a)"

text \<open>
  The trigger function. It returns the row to insert and updates the chosen ambulance
  (\<open>UPDATE ambulances SET status = 'busy', updated_at = now() WHERE id = ...\<close>); the
  model returns the row and the ambulance table.
\<close>

definition auto_dispatch_ambulance ::
    "timestamp \<Rightarrow> ambulance list \<Rightarrow> emergency_request \<Rightarrow> emergency_request \<times> ambulance list" where
  "auto_dispatch_ambulance now pool new =
     (if status new = Pending \<and> assigned_ambulance_id new = None then
        (case nearest_ambulance pool new of
           None \<Rightarrow> (new, pool)
         | Some nearest \<Rightarrow>
             (new\<lparr>assigned_ambulance_id := Some (amb_id nearest),
                  assigned_driver_id := driver_id nearest,
                  status := Assigned\<rparr>,
              map (\<lambda>a. if amb_id a = amb_id nearest
                        then a\<lparr>amb_status := Busy, amb_updated_at := now\<rparr> else a) pool))
      else (new, pool))"

subsection \<open>The tracking code\<close>

text \<open>
  \<open>MD5\<close> yields 128 bits, which PostgreSQL prints as 32 lower-case hexadecimal digits.
  The digest of the random UUID is an input of the model.
\<close>

definition hex_digit :: "nat \<Rightarrow> char" where
  "hex_digit n = ''0123456789abcdef'' ! (n mod 16)"

definition md5_text :: "128 word \<Rightarrow> string" where
  "md5_text digest = map (\<lambda>i. hex_digit (unat (drop_bit (4 * (31 - i)) digest))) [0..<32]"

text \<open>\<open>UPPER\<close> on one character: the 26 lower-case letters go to upper case.\<close>

definition upper_char :: "char \<Rightarrow> char" where
  "upper_char c =
     (case map_of (zip ''abcdefghijklmnopqrstuvwxyz'' ''ABCDEFGHIJKLMNOPQRSTUVWXYZ'') c of
        None \<Rightarrow> c
      | Some u \<Rightarrow> u)"

text \<open>\<open>'SC-' || UPPER(SUBSTRING(MD5(gen_random_uuid()::text) FROM 1 FOR 8))\<close>\<close>

definition generate_tracking_code :: "128 word \<Rightarrow> emergency_request \<Rightarrow> emergency_request" where
  "generate_tracking_code digest new =
     new\<lparr>tracking_code := ''SC-'' @ map upper_char (take 8 (md5_text digest))\<rparr>"

text \<open>The format \<open>SC-[A-Z0-9]{8}\<close>.\<close>

definition upper_alnum :: "char \<Rightarrow> bool" where
  "upper_alnum c = (c \<in> set ''ABCDEFGHIJKLMNOPQRSTUVWXYZ0123456789'')"

definition tracking_code_format :: "string \<Rightarrow> bool" where
  "tracking_code_format s =
     (length s = 11 \<and> take 3 s = ''SC-'' \<and> list_all upper_alnum (drop 3 s))"

subsection \<open>Inserting a request\<close>

text \<open>
  \<open>INSERT INTO emergency_requests\<close> of a row as the client of the API sends it, the columns
  it omits already filled in with their defaults. The policy "Anyone can create emergency
  request" asks that the phone, the type and the location are not null, which the row type
  already says, and restricts no other column. The two \<open>BEFORE INSERT\<close> triggers run in
  the order of their names (\<open>set_tracking_code\<close>, then \<open>trigger_auto_dispatch\<close>); then
  the primary key and the unique constraint on \<open>tracking_code\<close> are checked, and at the end
  of the statement the foreign key of \<open>assigned_ambulance_id\<close> (that of
  \<open>assigned_driver_id\<close> refers to the users of the authentication service, which are not
  a table of this development). A violation aborts the statement, and the trigger's
  update of the ambulance with it.
\<close>

definition insert_row :: "timestamp \<Rightarrow> 128 word \<Rightarrow> emergency_request \<Rightarrow> db \<Rightarrow> pg_error + db" where
  "insert_row now digest row d =
     (let new1 = generate_tracking_code digest row;
          dispatched = auto_dispatch_ambulance now (ambulances d) new1;
          new2 = fst dispatched
      in if req_id new2 \<in> set (map req_id (emergency_requests d)) \<or>
            tracking_code new2 \<in> set (map tracking_code (emergency_requests d))
         then Inl Unique_violation
         else if (case assigned_ambulance_id new2 of
                    None \<Rightarrow> False
                  | Some aid \<Rightarrow> aid \<notin> set (map amb_id (ambulances d)))
         then Inl Foreign_key_violation
         else Inr (d\<lparr>ambulances := snd dispatched,
                     emergency_requests := emergency_requests d @ [new2]\<rparr>))"

text \<open>
  The \<open>INSERT\<close> of the request form: it sends the phone, the type and the location (and
  a name, a description and an address, which no operation reads), and neither a status
  nor an assignment. \<open>new_tracking_code\<close> is a tracking code sent along, which the form
  does not do.
\<close>

record new_request =
  new_tracking_code :: "string option"
  new_requester_phone :: string
  new_emergency_type :: string
  new_location_lat :: real
  new_location_lng :: real

text \<open>
  The row of the form's \<open>INSERT\<close> once the column defaults are filled in:
  \<open>id = gen_random_uuid()\<close> (an input), \<open>tracking_code = 'TEMP'\<close>, \<open>status = 'pending'\<close>,
  no assignment, both timestamps \<open>now()\<close>.
\<close>

definition insert_defaults :: "timestamp \<Rightarrow> uuid \<Rightarrow> new_request \<Rightarrow> emergency_request" where
  "insert_defaults now new_id n =
     \<lparr>req_id = new_id,
      tracking_code = coalesce (new_tracking_code n) ''TEMP'',
      requester_phone = new_requester_phone n,
      emergency_type = new_emergency_type n,
      location_lat = new_location_lat n,
      location_lng = new_location_lng n,
      status = Pending,
      assigned_ambulance_id = None,
      assigned_driver_id = None,
      created_at = now,
      updated_at = now,
      completed_at = None\<rparr>"

definition insert_request ::
    "timestamp \<Rightarrow> uuid \<Rightarrow> 128 word \<Rightarrow> new_request \<Rightarrow> db \<Rightarrow> pg_error + db" where
  "insert_request now new_id digest n d = insert_row now digest (insert_defaults now new_id n) d"

subsection \<open>Updates through the API, under row-level security\<close>

text \<open>
  The permissive \<open>UPDATE\<close> policies of \<open>emergency_requests\<close>:
  "Assigned drivers can update requests" (\<open>USING (assigned_driver_id = auth.uid())\<close>) and
  "Admins can manage requests" (\<open>USING (has_role(auth.uid(), 'admin'))\<close>).
\<close>

definition requests_policy :: "db \<Rightarrow> uuid \<Rightarrow> emergency_request \<Rightarrow> bool" where
  "requests_policy d uid r = (assigned_driver_id r = Some uid \<or> has_role d uid Admin)"

text \<open>
  The permissive \<open>UPDATE\<close> policies of \<open>ambulances\<close>: "Drivers can update own ambulance"
  (\<open>USING (driver_id = auth.uid())\<close>) and "Admins can manage ambulances".
\<close>

definition ambulances_policy :: "db \<Rightarrow> uuid \<Rightarrow> ambulance \<Rightarrow> bool" where
  "ambulances_policy d uid a = (driver_id a = Some uid \<or> has_role d uid Admin)"

text \<open>
  \<open>supabase.from('emergency_requests').update(cols).eq('id', rid)\<close> as user \<open>uid\<close>.
  PostgreSQL applies the \<open>USING\<close> expression of the policies as a filter: a row that fails
  it is not seen by the \<open>UPDATE\<close>, which then changes no row and raises no error. A policy
  without \<open>WITH CHECK\<close> checks the new row against \<open>USING\<close> too, and that failure is an
  error. The \<open>BEFORE UPDATE\<close> trigger sets \<open>updated_at = now()\<close>.
\<close>

definition update_emergency_requests ::
    "timestamp \<Rightarrow> uuid \<Rightarrow> uuid \<Rightarrow> (emergency_request \<Rightarrow> emergency_request) \<Rightarrow> db \<Rightarrow> pg_error + db" where
  "update_emergency_requests now uid rid set_cols d =
     (let visible = (\<lambda>r. req_id r = rid \<and> requests_policy d uid r);
          new_row = (\<lambda>r. (set_cols r)\<lparr>updated_at := now\<rparr>)
      in if list_ex (\<lambda>r. visible r \<and> \<not> requests_policy d uid (new_row r)) (emergency_requests d)
         then Inl Rls_violation
         else Inr (d\<lparr>emergency_requests :=
                       map (\<lambda>r. if visible r then new_row r else r) (emergency_requests d)\<rparr>))"

text \<open>\<open>supabase.from('ambulances').update(cols).eq('id', aid)\<close> as user \<open>uid\<close>.\<close>

definition update_ambulances ::
    "timestamp \<Rightarrow> uuid \<Rightarrow> uuid \<Rightarrow> (ambulance \<Rightarrow> ambulance) \<Rightarrow> db \<Rightarrow> pg_error + db" where
  "update_ambulances now uid aid set_cols d =
     (let visible = (\<lambda>a. amb_id a = aid \<and> ambulances_policy d uid a);
          new_row = (\<lambda>a. (set_cols a)\<lparr>amb_updated_at := now\<rparr>)
      in if list_ex (\<lambda>a. visible a \<and> \<not> ambulances_policy d uid (new_row a)) (ambulances d)
         then Inl Rls_violation
         else Inr (d\<lparr>ambulances :=
                       map (\<lambda>a. if visible a then new_row a else a) (ambulances d)\<rparr>))"

datatype toast = Toast_error string | Toast_success string

subsection \<open>The administrator's dashboard\<close>

record admin_dashboard =
  admin_requests :: "emergency_request list"
  admin_ambulances :: "ambulance list"

text \<open>
  \<open>fetchData\<close>: the 50 most recent requests (\<open>order('created_at', {ascending: false})
  .limit(50)\<close>) and all ambulances (\<open>order('plate_number')\<close>). Both tables are readable by
  everyone.
\<close>

definition admin_fetchData :: "db \<Rightarrow> admin_dashboard" where
  "admin_fetchData d =
     \<lparr>admin_requests = take 50 (rev (sort_key created_at (emergency_requests d))),
      admin_ambulances = sort_key plate_number (ambulances d)\<rparr>"

text \<open>
  \<open>assignAmbulance(requestId, ambulanceId)\<close>, run by user \<open>uid\<close> over the dashboard's
  \<open>ambulances\<close> state. The two updates are two requests to the API; the model runs them
  one after the other with nothing in between. The result of the second is not read.
\<close>

definition assignAmbulance ::
    "timestamp \<Rightarrow> uuid \<Rightarrow> ambulance list \<Rightarrow> uuid \<Rightarrow> uuid \<Rightarrow> db \<Rightarrow> db \<times> toast" where
  "assignAmbulance now uid ambulances_state requestId ambulanceId d =
     (case find (\<lambda>a. amb_id a = ambulanceId) ambulances_state of
        None \<Rightarrow> (d, Toast_error ''Ambulance has no assigned driver'')
      | Some ambulance \<Rightarrow>
          (case driver_id ambulance of
             None \<Rightarrow> (d, Toast_error ''Ambulance has no assigned driver'')
           | Some drv \<Rightarrow>
               (case update_emergency_requests now uid requestId
                       (\<lambda>r. r\<lparr>assigned_ambulance_id := Some ambulanceId,
                               assigned_driver_id := Some drv,
                               status := Assigned\<rparr>) d of
                  Inl err \<Rightarrow> (d, Toast_error ''Failed to assign ambulance'')
                | Inr d1 \<Rightarrow>
                    (case update_ambulances now uid ambulanceId (\<lambda>a. a\<lparr>amb_status := Busy\<rparr>) d1 of
                       Inl err \<Rightarrow> (d1, Toast_success ''Ambulance assigned'')
                     | Inr d2 \<Rightarrow> (d2, Toast_success ''Ambulance assigned'')))))"

text \<open>
  What the requests tab offers: for a request of the list with status \<open>pending\<close>, the
  ambulances of the list with status \<open>available\<close>.
\<close>

definition admin_offers :: "admin_dashboard \<Rightarrow> uuid \<Rightarrow> uuid \<Rightarrow> bool" where
  "admin_offers view requestId ambulanceId =
     (list_ex (\<lambda>r. req_id r = requestId \<and> status r = Pending) (admin_requests view) \<and>
      list_ex (\<lambda>a. amb_id a = ambulanceId)
        (filter (\<lambda>a. amb_status a = Available) (admin_ambulances view)))"

text \<open>
  \<open>assignDriverToAmbulance(ambulanceId, driverId)\<close> of the ambulances tab, run by user
  \<open>uid\<close>: \<open>driverId\<close> is the driver chosen, \<open>None\<close> for the empty string, which the
  code turns into \<open>null\<close>. Any driver may be chosen for any ambulance, and \<open>driver_id\<close> has
  no unique constraint.
\<close>

definition assignDriverToAmbulance ::
    "timestamp \<Rightarrow> uuid \<Rightarrow> uuid \<Rightarrow> uuid option \<Rightarrow> db \<Rightarrow> db \<times> toast" where
  "assignDriverToAmbulance now uid ambulanceId driverId d =
     (case update_ambulances now uid ambulanceId (\<lambda>a. a\<lparr>driver_id := driverId\<rparr>) d of
        Inl err \<Rightarrow> (d, Toast_error ''Failed to assign driver'')
      | Inr d1 \<Rightarrow> (d1, Toast_success ''Driver assigned''))"

subsection \<open>The driver's dashboard\<close>

record driver_dashboard =
  driver_user :: uuid
  driver_requests :: "emergency_request list"
  driver_ambulance :: "ambulance option"

text \<open>The state of the component when it mounts: no requests, no ambulance.\<close>

definition driver_mount :: "uuid \<Rightarrow> driver_dashboard" where
  "driver_mount uid = \<lparr>driver_user = uid, driver_requests = [], driver_ambulance = None\<rparr>"

text \<open>
  \<open>fetchData\<close>: the ambulance whose driver is the user, read with \<open>.single()\<close>, which
  yields no data unless exactly one row matches (the state then keeps its old value);
  and the user's requests with status \<open>assigned\<close>, \<open>en_route\<close> or \<open>arrived\<close>, most recent
  first.
\<close>

definition driver_fetchData :: "db \<Rightarrow> driver_dashboard \<Rightarrow> driver_dashboard" where
  "driver_fetchData d dash =
     dash\<lparr>driver_ambulance :=
            (case filter (\<lambda>a. driver_id a = Some (driver_user dash)) (ambulances d) of
               [ambData] \<Rightarrow> Some ambData
             | other \<Rightarrow> driver_ambulance dash),
          driver_requests :=
            rev (sort_key created_at
              (filter (\<lambda>r. assigned_driver_id r = Some (driver_user dash) \<and>
                            status r \<in> {Assigned, En_route, Arrived})
                 (emergency_requests d)))\<rparr>"

text \<open>The ambulance status that goes with a request status.\<close>

definition ambStatus :: "request_status \<Rightarrow> ambulance_status" where
  "ambStatus newStatus =
     (if newStatus = Completed then Available
      else if newStatus = En_route then Amb_en_route
      else if newStatus = Arrived then Amb_arrived
      else Busy)"

text \<open>
  \<open>updateRequestStatus(requestId, newStatus)\<close> over the dashboard's state; \<open>client_now\<close>
  is the browser's clock (\<open>new Date()\<close>). The result of the ambulance update is not read.
\<close>

definition updateRequestStatus ::
    "timestamp \<Rightarrow> timestamp \<Rightarrow> driver_dashboard \<Rightarrow> uuid \<Rightarrow> request_status \<Rightarrow> db \<Rightarrow> db \<times> toast" where
  "updateRequestStatus now client_now dash requestId newStatus d =
     (let request = find (\<lambda>r. req_id r = requestId) (driver_requests dash) in
      case update_emergency_requests now (driver_user dash) requestId
             (\<lambda>r. r\<lparr>status := newStatus,
                     completed_at := (if newStatus = Completed then Some client_now else None)\<rparr>) d of
        Inl err \<Rightarrow> (d, Toast_error ''Failed to update status'')
      | Inr d1 \<Rightarrow>
          (case driver_ambulance dash of
             None \<Rightarrow> (d1, Toast_success ''Status updated'')
           | Some ambulance \<Rightarrow>
               (let updateData =
                      (\<lambda>a. case (if newStatus = Arrived then request else None) of
                              None \<Rightarrow> a\<lparr>amb_status := ambStatus newStatus\<rparr>
                            | Some req \<Rightarrow>
                                a\<lparr>amb_status := ambStatus newStatus,
                                  current_lat := Some (location_lat req),
                                  current_lng := Some (location_lng req)\<rparr>)
                in case update_ambulances now (driver_user dash) (amb_id ambulance) updateData d1 of
                     Inl err \<Rightarrow> (d1, Toast_success ''Status updated'')
                   | Inr d2 \<Rightarrow> (d2, Toast_success ''Status updated''))))"

text \<open>
  What the list of active assignments offers: for a request of the list, the statuses
  \<open>en_route\<close>, \<open>arrived\<close> and \<open>completed\<close>.
\<close>

definition driver_offers :: "driver_dashboard \<Rightarrow> uuid \<Rightarrow> request_status \<Rightarrow> bool" where
  "driver_offers dash requestId newStatus =
     (list_ex (\<lambda>r. req_id r = requestId) (driver_requests dash) \<and>
      newStatus \<in> {En_route, Arrived, Completed})"

subsection \<open>The operations as transitions of the database\<close>

text \<open>
  \<open>call\<close>: one of the three operations of the pages runs (the \<open>INSERT\<close> of the request
  form, the administrator's assignment, the driver's status update), on any arguments and
  over any dashboard state (a dashboard may show rows that have changed since it fetched
  them).
\<close>

inductive call :: "db \<Rightarrow> db \<Rightarrow> bool" where
  call_insert:
    "insert_request now new_id digest n d = Inr d' \<Longrightarrow> call d d'"
| call_assign:
    "call d (fst (assignAmbulance now uid ambulances_state requestId ambulanceId d))"
| call_update:
    "call d (fst (updateRequestStatus now client_now dash requestId newStatus d))"

text \<open>
  \<open>ui_step\<close>: the same operations, each started from a dashboard that has just fetched
  the tables and offers the action: an administrator assigns an available ambulance to a
  pending request of the list; a driver moves a request of the list of active
  assignments.
\<close>

inductive ui_step :: "db \<Rightarrow> db \<Rightarrow> bool" where
  ui_insert:
    "insert_request now new_id digest n d = Inr d' \<Longrightarrow> ui_step d d'"
| ui_assign:
    "has_role d uid Admin \<Longrightarrow>
     admin_offers (admin_fetchData d) requestId ambulanceId \<Longrightarrow>
     ui_step d (fst (assignAmbulance now uid (admin_ambulances (admin_fetchData d))
                       requestId ambulanceId d))"
| ui_update:
    "dash = driver_fetchData d (driver_mount uid) \<Longrightarrow>
     driver_offers dash requestId newStatus \<Longrightarrow>
     ui_step d (fst (updateRequestStatus now client_now dash requestId newStatus d))"

subsection \<open>The properties of a state\<close>



text \<open>Both assignment columns null, or both non-null.\<close>

definition paired :: "emergency_request \<Rightarrow> bool" where
  "paired r = ((assigned_ambulance_id r = None) = (assigned_driver_id r = None))"

text \<open>A provisioned system: ambulances with their primary key, and no request yet.\<close>

definition provisioned :: "db \<Rightarrow> bool" where
  "provisioned d = (emergency_requests d = [] \<and> distinct (map amb_id (ambulances d)))"

text \<open>
  The state invariant of the dispatch and lifecycle operations: the primary keys; a
  pending request has no assignment; a request under way references an ambulance of the
  table that is not available and whose driver is the request's driver; two active
  requests on one ambulance are the same request.
\<close>

definition under_way :: "emergency_request \<Rightarrow> bool" where
  "under_way r = (status r = Assigned \<or> status r = En_route \<or> status r = Arrived)"



subsection \<open>The great-circle distance of an ambulance to a request\<close>

text \<open>
  The distance the specification names for the dispatch decision: \<open>calculateDistance\<close>
  from the ambulance's coordinates (with the trigger's fallback point for null) to the
  request's location. The trigger does not call it; it is here to be compared with
  \<open>distance\<close>.
\<close>

definition haversine :: "emergency_request \<Rightarrow> ambulance \<Rightarrow> real" where
  "haversine new a =
     calculateDistance (coalesce (current_lat a) 9.0579) (coalesce (current_lng a) 7.4951)
       (location_lat new) (location_lng new)"

text \<open>
  The ambulance with each null coordinate replaced by the fallback value the trigger's
  \<open>COALESCE\<close> gives it.
\<close>

definition at_fallback :: "ambulance \<Rightarrow> ambulance" where
  "at_fallback a =
     a\<lparr>current_lat := Some (coalesce (current_lat a) 9.0579),
       current_lng := Some (coalesce (current_lng a) 7.4951)\<rparr>"

subsection \<open>Concrete fleets, requests and runs\<close>

text \<open>Two ambulances of the seed data, each with a driver (users 11 and 12).\<close>

definition ambulance_1 :: ambulance where
  "ambulance_1 =
     \<lparr>amb_id = 21, driver_id = Some 11, plate_number = ''ABJ-001-SC'', amb_status = Available,
      current_lat = Some 9.08, current_lng = Some 7.40,
      base_lat = Some 9.08, base_lng = Some 7.40, amb_updated_at = 0\<rparr>"

definition ambulance_2 :: ambulance where
  "ambulance_2 =
     \<lparr>amb_id = 22, driver_id = Some 12, plate_number = ''ABJ-002-SC'', amb_status = Available,
      current_lat = Some 9.00, current_lng = Some 7.50,
      base_lat = Some 9.00, base_lng = Some 7.50, amb_updated_at = 0\<rparr>"

text \<open>Three submissions of the public form, and the digests their tracking codes come from.\<close>

definition form_1 :: new_request where
  "form_1 =
     \<lparr>new_tracking_code = None, new_requester_phone = ''08030000001'',
      new_emergency_type = ''Medical Emergency'',
      new_location_lat = 9.081, new_location_lng = 7.401\<rparr>"

definition form_2 :: new_request where
  "form_2 =
     \<lparr>new_tracking_code = None, new_requester_phone = ''08030000002'',
      new_emergency_type = ''Burns'',
      new_location_lat = 9.05, new_location_lng = 7.45\<rparr>"

definition form_3 :: new_request where
  "form_3 =
     \<lparr>new_tracking_code = None, new_requester_phone = ''08030000003'',
      new_emergency_type = ''Accident/Trauma'',
      new_location_lat = 9.06, new_location_lng = 7.42\<rparr>"

definition digest_1 :: "128 word" where "digest_1 = push_bit 96 0xA1B2C3D4"
definition digest_2 :: "128 word" where "digest_2 = push_bit 96 0x0F9E8D7C"
definition digest_3 :: "128 word" where "digest_3 = push_bit 96 0x5566AABB"

text \<open>The rows of the three requests as the defaults and the tracking-code trigger leave them.\<close>

definition request_100 :: emergency_request where
  "request_100 =
     \<lparr>req_id = 100, tracking_code = ''SC-A1B2C3D4'', requester_phone = ''08030000001'',
      emergency_type = ''Medical Emergency'', location_lat = 9.081, location_lng = 7.401,
      status = Pending, assigned_ambulance_id = None, assigned_driver_id = None,
      created_at = 10, updated_at = 10, completed_at = None\<rparr>"

definition request_101 :: emergency_request where
  "request_101 =
     \<lparr>req_id = 101, tracking_code = ''SC-0F9E8D7C'', requester_phone = ''08030000002'',
      emergency_type = ''Burns'', location_lat = 9.05, location_lng = 7.45,
      status = Pending, assigned_ambulance_id = None, assigned_driver_id = None,
      created_at = 20, updated_at = 20, completed_at = None\<rparr>"

definition request_102 :: emergency_request where
  "request_102 =
     \<lparr>req_id = 102, tracking_code = ''SC-5566AABB'', requester_phone = ''08030000003'',
      emergency_type = ''Accident/Trauma'', location_lat = 9.06, location_lng = 7.42,
      status = Pending, assigned_ambulance_id = None, assigned_driver_id = None,
      created_at = 40, updated_at = 40, completed_at = None\<rparr>"

text \<open>Request 100 once ambulance 21 and its driver 11 are assigned, and once completed.\<close>

definition assigned_100 :: emergency_request where
  "assigned_100 =
     request_100\<lparr>assigned_ambulance_id := Some 21, assigned_driver_id := Some 11,
                 status := Assigned\<rparr>"

definition completed_100 :: emergency_request where
  "completed_100 =
     assigned_100\<lparr>status := Completed, updated_at := 30, completed_at := Some 30\<rparr>"

text \<open>
  A system with one ambulance; user 10 is an administrator, users 11 and 12 are drivers.
\<close>

definition solo_db :: db where
  "solo_db =
     \<lparr>ambulances = [ambulance_1], emergency_requests = [],
      user_roles = [(10, Admin), (11, Driver), (12, Driver)]\<rparr>"

text \<open>After request 100 is submitted at time 10: it is assigned to ambulance 21.\<close>

definition solo_1 :: db where
  "solo_1 =
     solo_db\<lparr>ambulances := [ambulance_1\<lparr>amb_status := Busy, amb_updated_at := 10\<rparr>],
             emergency_requests := [assigned_100]\<rparr>"

text \<open>After request 101 is submitted at time 20: no ambulance is available, it stays pending.\<close>

definition solo_2 :: db where
  "solo_2 = solo_1\<lparr>emergency_requests := [assigned_100, request_101]\<rparr>"

text \<open>The dashboard of driver 11 after it fetched the tables in state \<open>solo_2\<close>.\<close>

definition dashboard_11 :: driver_dashboard where
  "dashboard_11 =
     \<lparr>driver_user = 11, driver_requests = [assigned_100],
      driver_ambulance = Some (ambulance_1\<lparr>amb_status := Busy, amb_updated_at := 10\<rparr>)\<rparr>"

text \<open>After driver 11 completes request 100 at time 30: ambulance 21 is available again.\<close>

definition solo_3 :: db where
  "solo_3 =
     solo_db\<lparr>ambulances := [ambulance_1\<lparr>amb_status := Available, amb_updated_at := 30\<rparr>],
             emergency_requests := [completed_100, request_101]\<rparr>"

text \<open>The administrator's dashboard after it fetched the tables in state \<open>solo_3\<close>.\<close>

definition dashboard_admin :: admin_dashboard where
  "dashboard_admin =
     \<lparr>admin_requests = [request_101, completed_100],
      admin_ambulances = [ambulance_1\<lparr>amb_status := Available, amb_updated_at := 30\<rparr>]\<rparr>"

text \<open>After request 102 is submitted at time 40: it is assigned to ambulance 21.\<close>

definition solo_4 :: db where
  "solo_4 =
     solo_db\<lparr>ambulances := [ambulance_1\<lparr>amb_status := Busy, amb_updated_at := 40\<rparr>],
             emergency_requests :=
               [completed_100, request_101,
                request_102\<lparr>assigned_ambulance_id := Some 21, assigned_driver_id := Some 11,
                            status := Assigned\<rparr>]\<rparr>"

text \<open>
  After the administrator assigns ambulance 21 to request 101 at time 50, from the
  dashboard as it was fetched in state \<open>solo_3\<close>.
\<close>

definition solo_5 :: db where
  "solo_5 =
     solo_db\<lparr>ambulances := [ambulance_1\<lparr>amb_status := Busy, amb_updated_at := 50\<rparr>],
             emergency_requests :=
               [completed_100,
                request_101\<lparr>assigned_ambulance_id := Some 21, assigned_driver_id := Some 11,
                            status := Assigned, updated_at := 50\<rparr>,
                request_102\<lparr>assigned_ambulance_id := Some 21, assigned_driver_id := Some 11,
                            status := Assigned\<rparr>]\<rparr>"

text \<open>
  After driver 11 sets request 100 to \<open>en_route\<close> at time 35 in state \<open>solo_3\<close>, from the
  dashboard as it was fetched in state \<open>solo_2\<close>.
\<close>

definition solo_3_reopened :: db where
  "solo_3_reopened =
     solo_db\<lparr>ambulances := [ambulance_1\<lparr>amb_status := Amb_en_route, amb_updated_at := 35\<rparr>],
             emergency_requests :=
               [completed_100\<lparr>status := En_route, updated_at := 35, completed_at := None\<rparr>,
                request_101]\<rparr>"

text \<open>After driver 11 sets request 100 to \<open>arrived\<close> at time 25 in state \<open>solo_2\<close>.\<close>

definition solo_2_arrived :: db where
  "solo_2_arrived =
     solo_db\<lparr>ambulances :=
               [ambulance_1\<lparr>amb_status := Amb_arrived, current_lat := Some 9.081,
                           current_lng := Some 7.401, amb_updated_at := 25\<rparr>],
             emergency_requests :=
               [assigned_100\<lparr>status := Arrived, updated_at := 25\<rparr>, request_101]\<rparr>"

text \<open>
  A system with the two ambulances, and its state after request 100 is submitted at time
  10: ambulance 21 is the nearer one.
\<close>

definition fleet_db :: db where
  "fleet_db =
     \<lparr>ambulances = [ambulance_1, ambulance_2], emergency_requests = [],
      user_roles = [(10, Admin), (11, Driver), (12, Driver)]\<rparr>"

definition fleet_1 :: db where
  "fleet_1 =
     fleet_db\<lparr>ambulances := [ambulance_1\<lparr>amb_status := Busy, amb_updated_at := 10\<rparr>, ambulance_2],
              emergency_requests := [assigned_100]\<rparr>"

text \<open>The dashboard of driver 12 after it fetched the tables in state \<open>fleet_1\<close>.\<close>

definition dashboard_12 :: driver_dashboard where
  "dashboard_12 =
     \<lparr>driver_user = 12, driver_requests = [], driver_ambulance = Some ambulance_2\<rparr>"

text \<open>
  A system in which the administrator has made user 11 the driver of a second ambulance,
  and its state after request 100 is submitted at time 10.
\<close>

definition ambulance_3 :: ambulance where
  "ambulance_3 =
     \<lparr>amb_id = 24, driver_id = Some 11, plate_number = ''ABJ-004-SC'', amb_status = Available,
      current_lat = Some 9.03, current_lng = Some 7.48,
      base_lat = Some 9.03, base_lng = Some 7.48, amb_updated_at = 0\<rparr>"

definition twin_db :: db where
  "twin_db =
     \<lparr>ambulances = [ambulance_1, ambulance_3], emergency_requests = [],
      user_roles = [(10, Admin), (11, Driver), (12, Driver)]\<rparr>"

definition twin_1 :: db where
  "twin_1 =
     twin_db\<lparr>ambulances := [ambulance_1\<lparr>amb_status := Busy, amb_updated_at := 10\<rparr>, ambulance_3],
             emergency_requests := [assigned_100]\<rparr>"

text \<open>The same system before the administrator did so: ambulance 24 has no driver.\<close>

definition twin_db0 :: db where
  "twin_db0 = twin_db\<lparr>ambulances := [ambulance_1, ambulance_3\<lparr>driver_id := None\<rparr>]\<rparr>"

text \<open>
  The dashboard of driver 11 after it mounted and fetched the tables in state \<open>twin_1\<close>:
  two ambulances have this driver, so \<open>.single()\<close> yields none.
\<close>

definition dashboard_twin :: driver_dashboard where
  "dashboard_twin =
     \<lparr>driver_user = 11, driver_requests = [assigned_100], driver_ambulance = None\<rparr>"

text \<open>
  Two available ambulances on the equator, one at longitude -180 and one a degree north
  of longitude 180, and a pending request at latitude 0, longitude 180.
\<close>

definition ambulance_west :: ambulance where
  "ambulance_west =
     \<lparr>amb_id = 31, driver_id = Some 13, plate_number = ''PAC-001-SC'', amb_status = Available,
      current_lat = Some 0, current_lng = Some (- 180),
      base_lat = Some 0, base_lng = Some (- 180), amb_updated_at = 0\<rparr>"

definition ambulance_north :: ambulance where
  "ambulance_north =
     \<lparr>amb_id = 32, driver_id = Some 14, plate_number = ''PAC-002-SC'', amb_status = Available,
      current_lat = Some 1, current_lng = Some 180,
      base_lat = Some 1, base_lng = Some 180, amb_updated_at = 0\<rparr>"

definition request_meridian :: emergency_request where
  "request_meridian =
     \<lparr>req_id = 200, tracking_code = ''SC-00000000'', requester_phone = ''08030000009'',
      emergency_type = ''Medical Emergency'', location_lat = 0, location_lng = 180,
      status = Pending, assigned_ambulance_id = None, assigned_driver_id = None,
      created_at = 10, updated_at = 10, completed_at = None\<rparr>"

text \<open>An ambulance with a driver and no coordinates yet, as the dashboard creates them.\<close>

definition ambulance_new :: ambulance where
  "ambulance_new =
     \<lparr>amb_id = 23, driver_id = Some 15, plate_number = ''ABJ-006-SC'', amb_status = Available,
      current_lat = None, current_lng = None,
      base_lat = None, base_lng = None, amb_updated_at = 0\<rparr>"

text \<open>
  After the administrator assigns ambulance 21 to request 101 at time 50 in state
  \<open>solo_3\<close>, from the dashboard as it was fetched in that state.
\<close>

definition solo_3_assigned :: db where
  "solo_3_assigned =
     solo_db\<lparr>ambulances := [ambulance_1\<lparr>amb_status := Busy, amb_updated_at := 50\<rparr>],
             emergency_requests :=
               [completed_100,
                request_101\<lparr>assigned_ambulance_id := Some 21, assigned_driver_id := Some 11,
                            status := Assigned, updated_at := 50\<rparr>]\<rparr>"

text \<open>
  Two available ambulances near latitude 60, one 0.2 degrees of longitude east of the
  request (about 11 km on the ground), one 0.15 degrees of latitude north of it (about
  17 km), and a pending request at latitude 60, longitude 10.
\<close>

definition ambulance_east :: ambulance where
  "ambulance_east =
     \<lparr>amb_id = 41, driver_id = Some 16, plate_number = ''OSL-001-SC'', amb_status = Available,
      current_lat = Some 60, current_lng = Some 10.2,
      base_lat = Some 60, base_lng = Some 10.2, amb_updated_at = 0\<rparr>"

definition ambulance_north60 :: ambulance where
  "ambulance_north60 =
     \<lparr>amb_id = 42, driver_id = Some 17, plate_number = ''OSL-002-SC'', amb_status = Available,
      current_lat = Some 60.15, current_lng = Some 10,
      base_lat = Some 60.15, base_lng = Some 10, amb_updated_at = 0\<rparr>"

definition request_60 :: emergency_request where
  "request_60 =
     \<lparr>req_id = 300, tracking_code = ''SC-11111111'', requester_phone = ''08030000010'',
      emergency_type = ''Medical Emergency'', location_lat = 60, location_lng = 10,
      status = Pending, assigned_ambulance_id = None, assigned_driver_id = None,
      created_at = 10, updated_at = 10, completed_at = None\<rparr>"

text \<open>
  The one-ambulance system after an \<open>INSERT\<close> through the API at time 10 that sends the
  columns of the first form and \<open>assigned_ambulance_id = 21\<close>: the row as it is stored.
\<close>

definition request_unpaired :: emergency_request where
  "request_unpaired = request_100\<lparr>assigned_ambulance_id := Some 21\<rparr>"

definition solo_unpaired :: db where
  "solo_unpaired = solo_db\<lparr>emergency_requests := [request_unpaired]\<rparr>"

section \<open>Properties\<close>

subsection \<open>Evaluating the model on the concrete runs\<close>

lemma coalesce_simps: "coalesce None dflt = dflt" "coalesce (Some x) dflt = x"
  by (simp_all add: coalesce_def)

lemma take8_md5:
  "take 8 (md5_text w) = map (\<lambda>i. hex_digit (unat (drop_bit (4 * (31 - i)) w))) [0..<8]"
  by (simp add: md5_text_def take_map)

lemmas code_eval =
  generate_tracking_code_def take8_md5 upt_rec hex_digit_def upper_char_def
  drop_bit_eq_div push_bit_eq_mult

lemmas rows =
  request_100_def request_101_def request_102_def assigned_100_def completed_100_def
  ambulance_1_def ambulance_2_def ambulance_3_def

lemmas policies =
  update_emergency_requests_def update_ambulances_def requests_policy_def
  ambulances_policy_def has_role_def Let_def

lemmas dispatch_eval =
  insert_request_def insert_row_def Let_def auto_dispatch_ambulance_def nearest_ambulance_def
  candidate_def

lemma row_100: "generate_tracking_code digest_1 (insert_defaults 10 100 form_1) = request_100"
  by (simp add: digest_1_def form_1_def request_100_def insert_defaults_def coalesce_def code_eval)

lemma row_101: "generate_tracking_code digest_2 (insert_defaults 20 101 form_2) = request_101"
  by (simp add: digest_2_def form_2_def request_101_def insert_defaults_def coalesce_def code_eval)

lemma row_102: "generate_tracking_code digest_3 (insert_defaults 40 102 form_3) = request_102"
  by (simp add: digest_3_def form_3_def request_102_def insert_defaults_def coalesce_def code_eval)

lemma distance_1: "distance request_100 ambulance_1 = sqrt (2 / 1000000)"
  by (simp add: distance_def request_100_def ambulance_1_def coalesce_def power2_eq_square)

lemma distance_2: "distance request_100 ambulance_2 = sqrt (16362 / 1000000)"
  by (simp add: distance_def request_100_def ambulance_2_def coalesce_def power2_eq_square)

lemma distance_3: "distance request_100 ambulance_3 = sqrt (8842 / 1000000)"
  by (simp add: distance_def request_100_def ambulance_3_def coalesce_def power2_eq_square)

lemma candidates_12: "filter candidate [ambulance_1, ambulance_2] = [ambulance_1, ambulance_2]"
  by (simp add: candidate_def ambulance_1_def ambulance_2_def)

lemma candidates_13: "filter candidate [ambulance_1, ambulance_3] = [ambulance_1, ambulance_3]"
  by (simp add: candidate_def ambulance_1_def ambulance_3_def)

lemma nearest_12: "nearest_ambulance [ambulance_1, ambulance_2] request_100 = Some ambulance_1"
  by (simp only: nearest_ambulance_def candidates_12) (simp add: distance_1 distance_2)

lemma nearest_13: "nearest_ambulance [ambulance_1, ambulance_3] request_100 = Some ambulance_1"
  by (simp only: nearest_ambulance_def candidates_13) (simp add: distance_1 distance_3)

lemma dispatch_12:
  "auto_dispatch_ambulance 10 [ambulance_1, ambulance_2] request_100 =
     (assigned_100, [ambulance_1\<lparr>amb_status := Busy, amb_updated_at := 10\<rparr>, ambulance_2])"
  by (simp only: auto_dispatch_ambulance_def nearest_12) (simp add: rows)

lemma dispatch_13:
  "auto_dispatch_ambulance 10 [ambulance_1, ambulance_3] request_100 =
     (assigned_100, [ambulance_1\<lparr>amb_status := Busy, amb_updated_at := 10\<rparr>, ambulance_3])"
  by (simp only: auto_dispatch_ambulance_def nearest_13) (simp add: rows)

lemma solo_step_1: "insert_request 10 100 digest_1 form_1 solo_db = Inr solo_1"
  by (simp only: insert_request_def insert_row_def row_100) (simp add: dispatch_eval solo_db_def solo_1_def rows)

lemma solo_step_2: "insert_request 20 101 digest_2 form_2 solo_1 = Inr solo_2"
  by (simp only: insert_request_def insert_row_def row_101)
     (simp add: dispatch_eval solo_db_def solo_1_def solo_2_def rows)

lemma solo_fetch_11: "driver_fetchData solo_2 (driver_mount 11) = dashboard_11"
  by (simp add: driver_fetchData_def driver_mount_def dashboard_11_def
        solo_db_def solo_1_def solo_2_def rows)

lemma solo_offer_3: "driver_offers dashboard_11 100 Completed"
  by (simp add: driver_offers_def dashboard_11_def rows)

lemma solo_step_3:
  "updateRequestStatus 30 30 dashboard_11 100 Completed solo_2 =
     (solo_3, Toast_success ''Status updated'')"
  by (simp add: updateRequestStatus_def policies ambStatus_def dashboard_11_def
        solo_db_def solo_1_def solo_2_def solo_3_def rows)

lemma solo_fetch_admin: "admin_fetchData solo_3 = dashboard_admin"
  by (simp add: admin_fetchData_def dashboard_admin_def solo_db_def solo_3_def rows)

lemma solo_offer_5: "admin_offers dashboard_admin 101 21"
  by (simp add: admin_offers_def dashboard_admin_def rows)

lemma solo_step_4: "insert_request 40 102 digest_3 form_3 solo_3 = Inr solo_4"
  by (simp only: insert_request_def insert_row_def row_102)
     (simp add: dispatch_eval solo_db_def solo_3_def solo_4_def rows)

lemma solo_step_5:
  "assignAmbulance 50 10 (admin_ambulances dashboard_admin) 101 21 solo_4 =
     (solo_5, Toast_success ''Ambulance assigned'')"
  by (simp add: assignAmbulance_def policies dashboard_admin_def
        solo_db_def solo_4_def solo_5_def rows)

lemma solo_reopen:
  "updateRequestStatus 35 35 dashboard_11 100 En_route solo_3 =
     (solo_3_reopened, Toast_success ''Status updated'')"
  by (simp add: updateRequestStatus_def policies ambStatus_def dashboard_11_def
        solo_db_def solo_3_def solo_3_reopened_def rows)

lemma solo_arrive:
  "updateRequestStatus 25 25 dashboard_11 100 Arrived solo_2 =
     (solo_2_arrived, Toast_success ''Status updated'')"
  by (simp add: updateRequestStatus_def policies ambStatus_def dashboard_11_def
        solo_db_def solo_1_def solo_2_def solo_2_arrived_def rows)

lemma fleet_step: "insert_request 10 100 digest_1 form_1 fleet_db = Inr fleet_1"
  apply (simp only: insert_request_def insert_row_def row_100)
  apply (simp add: fleet_db_def dispatch_12 fleet_1_def)
  apply (simp add: fleet_db_def rows)
  done

lemma twin_step: "insert_request 10 100 digest_1 form_1 twin_db = Inr twin_1"
  apply (simp only: insert_request_def insert_row_def row_100)
  apply (simp add: twin_db_def dispatch_13 twin_1_def)
  apply (simp add: twin_db_def rows)
  done

lemma fleet_fetch_12: "driver_fetchData fleet_1 (driver_mount 12) = dashboard_12"
  by (simp add: driver_fetchData_def driver_mount_def dashboard_12_def
        fleet_db_def fleet_1_def rows)

lemma twin_fetch: "driver_fetchData twin_1 (driver_mount 11) = dashboard_twin"
  by (simp add: driver_fetchData_def driver_mount_def dashboard_twin_def
        twin_db_def twin_1_def rows)

lemma twin_driver:
  "assignDriverToAmbulance 0 10 24 (Some 11) twin_db0 = (twin_db, Toast_success ''Driver assigned'')"
  by (simp add: assignDriverToAmbulance_def policies twin_db0_def twin_db_def rows)

lemma unpaired_step:
  "insert_row 10 digest_1 ((insert_defaults 10 100 form_1)\<lparr>assigned_ambulance_id := Some 21\<rparr>)
     solo_db = Inr solo_unpaired"
proof -
  have "generate_tracking_code digest_1
          ((insert_defaults 10 100 form_1)\<lparr>assigned_ambulance_id := Some 21\<rparr>) = request_unpaired"
    by (simp add: digest_1_def form_1_def request_unpaired_def request_100_def
          insert_defaults_def coalesce_def code_eval)
  then show ?thesis
    by (simp only: insert_row_def)
       (simp add: Let_def auto_dispatch_ambulance_def request_unpaired_def solo_db_def
          solo_unpaired_def rows)
qed

subsection \<open>The effect of the operations\<close>

lemma same_key_same_row:
  assumes "distinct (map f xs)" and "x \<in> set xs" and "y \<in> set xs" and "f x = f y"
  shows "x = y"
  using assms by (auto simp: distinct_map dest: inj_onD)

lemma update_emergency_requests_Inr:
  assumes "update_emergency_requests now uid rid f d = Inr d'"
  shows "d' = d\<lparr>emergency_requests :=
           map (\<lambda>r. if req_id r = rid \<and> requests_policy d uid r
                     then (f r)\<lparr>updated_at := now\<rparr> else r)
             (emergency_requests d)\<rparr>"
  using assms by (simp add: update_emergency_requests_def Let_def split: if_splits)

lemma update_ambulances_Inr:
  assumes "update_ambulances now uid aid f d = Inr d'"
  shows "d' = d\<lparr>ambulances :=
           map (\<lambda>a. if amb_id a = aid \<and> ambulances_policy d uid a
                     then (f a)\<lparr>amb_updated_at := now\<rparr> else a)
             (ambulances d)\<rparr>"
  using assms by (simp add: update_ambulances_def Let_def split: if_splits)

lemma update_ambulances_total:
  assumes "\<And>a. driver_id (f a) = driver_id a"
  shows "update_ambulances now uid aid f d =
           Inr (d\<lparr>ambulances :=
                  map (\<lambda>a. if amb_id a = aid \<and> ambulances_policy d uid a
                            then (f a)\<lparr>amb_updated_at := now\<rparr> else a)
                    (ambulances d)\<rparr>)"
  using assms by (auto simp: update_ambulances_def Let_def ambulances_policy_def list_ex_iff)

lemma update_emergency_requests_total:
  assumes "\<And>r. assigned_driver_id (f r) = assigned_driver_id r"
  shows "update_emergency_requests now uid rid f d =
           Inr (d\<lparr>emergency_requests :=
                  map (\<lambda>r. if req_id r = rid \<and> requests_policy d uid r
                            then (f r)\<lparr>updated_at := now\<rparr> else r)
                    (emergency_requests d)\<rparr>)"
  using assms
  by (auto simp: update_emergency_requests_def Let_def requests_policy_def list_ex_iff)

lemma dispatch_cases:
  obtains (unchanged) "auto_dispatch_ambulance now pool new = (new, pool)"
  | (assigned) n where "status new = Pending" "assigned_ambulance_id new = None"
      "nearest_ambulance pool new = Some n"
      "auto_dispatch_ambulance now pool new =
         (new\<lparr>assigned_ambulance_id := Some (amb_id n), assigned_driver_id := driver_id n,
              status := Assigned\<rparr>,
          map (\<lambda>a. if amb_id a = amb_id n
                    then a\<lparr>amb_status := Busy, amb_updated_at := now\<rparr> else a) pool)"
  by (cases "status new = Pending \<and> assigned_ambulance_id new = None";
      cases "nearest_ambulance pool new")
     (auto simp: auto_dispatch_ambulance_def)

lemma insert_request_Inr:
  assumes "insert_request now new_id digest n d = Inr d'"
  obtains new pool where
    "auto_dispatch_ambulance now (ambulances d)
       (generate_tracking_code digest (insert_defaults now new_id n)) = (new, pool)"
    "d' = d\<lparr>ambulances := pool, emergency_requests := emergency_requests d @ [new]\<rparr>"
    "req_id new \<notin> req_id ` set (emergency_requests d)"
    "tracking_code new \<notin> tracking_code ` set (emergency_requests d)"
  using assms
  by (cases "auto_dispatch_ambulance now (ambulances d)
       (generate_tracking_code digest (insert_defaults now new_id n))")
     (auto simp: insert_request_def insert_row_def Let_def split: if_splits)

lemma fresh_row:
  "status (generate_tracking_code digest (insert_defaults now new_id n)) = Pending"
  "assigned_ambulance_id (generate_tracking_code digest (insert_defaults now new_id n)) = None"
  "assigned_driver_id (generate_tracking_code digest (insert_defaults now new_id n)) = None"
  "req_id (generate_tracking_code digest (insert_defaults now new_id n)) = new_id"
  "tracking_code (generate_tracking_code digest (insert_defaults now new_id n)) =
     ''SC-'' @ map upper_char (take 8 (md5_text digest))"
  by (simp_all add: generate_tracking_code_def insert_defaults_def)

subsection \<open>The ambulance the trigger selects\<close>

lemma nearest_None_iff: "nearest_ambulance pool new = None \<longleftrightarrow> filter candidate pool = []"
proof -
  have "sort_key (distance new) (filter candidate pool) = [] \<longleftrightarrow> filter candidate pool = []"
    by (metis set_sort set_empty)
  then show ?thesis by (auto simp: nearest_ambulance_def split: list.splits)
qed

lemma nearest_Some_minimal:
  assumes "nearest_ambulance pool new = Some n"
  shows "n \<in> set (filter candidate pool)"
    and "\<forall>a\<in>set (filter candidate pool). distance new n \<le> distance new a"
proof -
  obtain rest where s: "sort_key (distance new) (filter candidate pool) = n # rest"
    using assms by (auto simp: nearest_ambulance_def split: list.splits)
  have mem: "set (filter candidate pool) = set (n # rest)"
    using set_sort [of "distance new" "filter candidate pool"] by (simp only: s)
  then show "n \<in> set (filter candidate pool)" by simp
  have "sorted (map (distance new) (n # rest))"
    using sorted_sort_key [of "distance new" "filter candidate pool"] by (simp only: s)
  then have "\<forall>a\<in>set (n # rest). distance new n \<le> distance new a" by auto
  then show "\<forall>a\<in>set (filter candidate pool). distance new n \<le> distance new a"
    by (simp only: mem)
qed

text \<open>
  Claim C1, as amended. For every ambulance table and every pending, unassigned request:
  when no ambulance is available with a driver, the trigger leaves the request and the
  table as they are (the request stays pending and unassigned); otherwise it assigns an
  ambulance that is available with a driver and whose planar distance to the request (the
  square root of the squared differences of latitude and of longitude, in degrees, null
  coordinates replaced by the fallback point) is minimal among those, and marks that
  ambulance busy.
\<close>

theorem dispatch_selects_planar_nearest:
  assumes "status new = Pending" and "assigned_ambulance_id new = None"
  shows "(filter candidate pool = [] \<longrightarrow> auto_dispatch_ambulance now pool new = (new, pool)) \<and>
         (filter candidate pool \<noteq> [] \<longrightarrow>
            (\<exists>n \<in> set (filter candidate pool).
                (\<forall>a \<in> set (filter candidate pool). distance new n \<le> distance new a) \<and>
                auto_dispatch_ambulance now pool new =
                  (new\<lparr>assigned_ambulance_id := Some (amb_id n),
                       assigned_driver_id := driver_id n, status := Assigned\<rparr>,
                   map (\<lambda>a. if amb_id a = amb_id n
                             then a\<lparr>amb_status := Busy, amb_updated_at := now\<rparr> else a) pool)))"
proof (cases "nearest_ambulance pool new")
  case None
  then have "filter candidate pool = []" by (simp add: nearest_None_iff)
  with None assms show ?thesis by (simp add: auto_dispatch_ambulance_def)
next
  case (Some n)
  have run: "auto_dispatch_ambulance now pool new =
      (new\<lparr>assigned_ambulance_id := Some (amb_id n),
           assigned_driver_id := driver_id n, status := Assigned\<rparr>,
       map (\<lambda>a. if amb_id a = amb_id n
                 then a\<lparr>amb_status := Busy, amb_updated_at := now\<rparr> else a) pool)"
    using Some assms by (simp add: auto_dispatch_ambulance_def)
  have "filter candidate pool \<noteq> []" using Some nearest_None_iff [of pool new] by simp
  with nearest_Some_minimal [OF Some] run show ?thesis by blast
qed

text \<open>
  The theorem at the specification's scenario A: ambulances at (9.08, 7.40) and
  (9.00, 7.50), a request at (9.081, 7.401).
\<close>

theorem dispatch_selects_planar_nearest_witness:
  "status request_100 = Pending \<and> assigned_ambulance_id request_100 = None \<and>
   filter candidate [ambulance_1, ambulance_2] \<noteq> [] \<and>
   distance request_100 ambulance_1 < distance request_100 ambulance_2 \<and>
   (\<exists>n \<in> set (filter candidate [ambulance_1, ambulance_2]).
      distance request_100 n \<le> distance request_100 ambulance_2 \<and>
      assigned_ambulance_id
        (fst (auto_dispatch_ambulance 10 [ambulance_1, ambulance_2] request_100)) =
        Some (amb_id n))"
proof -
  have p: "status request_100 = Pending" and u: "assigned_ambulance_id request_100 = None"
    by (simp_all add: request_100_def)
  have ne: "filter candidate [ambulance_1, ambulance_2] \<noteq> []"
    by (simp only: candidates_12) simp
  have lt: "distance request_100 ambulance_1 < distance request_100 ambulance_2"
    by (simp add: distance_1 distance_2)
  from dispatch_selects_planar_nearest [OF p u, of "[ambulance_1, ambulance_2]" 10] ne
  obtain n where "n \<in> set (filter candidate [ambulance_1, ambulance_2])"
    and "\<forall>a \<in> set (filter candidate [ambulance_1, ambulance_2]).
           distance request_100 n \<le> distance request_100 a"
    and "auto_dispatch_ambulance 10 [ambulance_1, ambulance_2] request_100 =
           (request_100\<lparr>assigned_ambulance_id := Some (amb_id n),
                        assigned_driver_id := driver_id n, status := Assigned\<rparr>,
            map (\<lambda>a. if amb_id a = amb_id n
                      then a\<lparr>amb_status := Busy, amb_updated_at := 10\<rparr> else a)
              [ambulance_1, ambulance_2])"
    by blast
  then have "\<exists>n \<in> set (filter candidate [ambulance_1, ambulance_2]).
      distance request_100 n \<le> distance request_100 ambulance_2 \<and>
      assigned_ambulance_id
        (fst (auto_dispatch_ambulance 10 [ambulance_1, ambulance_2] request_100)) =
        Some (amb_id n)"
    by (simp only: candidates_12) auto
  with p u ne lt show ?thesis by blast
qed

text \<open>
  The great-circle distance grows with the haversine term, and a quarter of the squared
  sine of four small angles stays below the squared sine of three.
\<close>

lemma atan2_sqrt_mono:
  assumes "0 \<le> a" and "a < b" and "b < 1"
  shows "atan2 (sqrt a) (sqrt (1 - a)) < atan2 (sqrt b) (sqrt (1 - b))"
proof -
  have pos: "0 < sqrt (1 - b)" "0 < sqrt (1 - a)" using assms by simp_all
  have "sqrt a / sqrt (1 - a) < sqrt b / sqrt (1 - b)"
    by (rule frac_less) (use assms in simp_all)
  then show ?thesis using pos by (simp add: atan2_def arctan_less_iff)
qed

lemma sin_3: "sin (3 * s) = sin s * (3 - 4 * (sin s)\<^sup>2)" for s :: real
proof -
  have "sin (3 * s) = sin (2 * s + s)" by simp
  also have "\<dots> = sin (2 * s) * cos s + cos (2 * s) * sin s" by (rule sin_add)
  also have "\<dots> = 2 * sin s * (cos s)\<^sup>2 + (1 - 2 * (sin s)\<^sup>2) * sin s"
    by (simp add: sin_double cos_double_sin power2_eq_square)
  also have "(cos s)\<^sup>2 = 1 - (sin s)\<^sup>2" by (simp add: cos_squared_eq)
  finally show ?thesis by (simp add: algebra_simps power2_eq_square)
qed

lemma sin_4_le: "(sin (4 * s))\<^sup>2 \<le> 16 * (sin s)\<^sup>2" for s :: real
proof -
  have "sin (4 * s) = 2 * sin (2 * s) * cos (2 * s)"
    using sin_double [of "2 * s"] by simp
  also have "\<dots> = 4 * sin s * (cos s * cos (2 * s))" by (simp add: sin_double)
  finally have "(sin (4 * s))\<^sup>2 = 16 * (sin s)\<^sup>2 * ((cos s)\<^sup>2 * (cos (2 * s))\<^sup>2)"
    by (simp add: power_mult_distrib)
  moreover have "(cos s)\<^sup>2 * (cos (2 * s))\<^sup>2 \<le> 1 * 1"
    by (intro mult_mono) (simp_all add: abs_square_le_1 abs_cos_le_one)
  ultimately show ?thesis
    using mult_left_mono [of "(cos s)\<^sup>2 * (cos (2 * s))\<^sup>2" 1 "16 * (sin s)\<^sup>2"] by simp
qed

lemma quarter_sin_4_less_sin_3:
  fixes s :: real
  assumes "0 < s" and "s < 1 / 2"
  shows "(sin (4 * s))\<^sup>2 / 4 < (sin (3 * s))\<^sup>2"
proof -
  have s_pi: "s < pi" using assms pi_ge_two by simp
  have pos: "0 < sin s" using assms(1) s_pi by (rule sin_gt_zero)
  have "sin s \<le> s" using assms(1) by (intro sin_x_le_x) simp
  then have small: "sin s < 1 / 2" using assms(2) by simp
  have "(sin s)\<^sup>2 < (1 / 2)\<^sup>2"
    using pos small by (intro power_strict_mono) simp_all
  then have "2 < 3 - 4 * (sin s)\<^sup>2" by (simp add: power2_eq_square)
  then have "sin s * 2 < sin s * (3 - 4 * (sin s)\<^sup>2)"
    using pos by (simp only: mult_less_cancel_left_pos)
  then have "2 * sin s < sin (3 * s)" unfolding sin_3 by (simp only: mult.commute)
  moreover have "0 \<le> 2 * sin s" using pos by simp
  ultimately have "(2 * sin s)\<^sup>2 < (sin (3 * s))\<^sup>2"
    by (intro power_strict_mono) simp_all
  with sin_4_le [of s] show ?thesis by (simp add: power_mult_distrib)
qed

lemma haversine_east:
  "haversine request_60 ambulance_east =
     6371 * (2 * atan2 (sqrt ((sin (4 * (pi / 7200)))\<^sup>2 / 4))
                       (sqrt (1 - (sin (4 * (pi / 7200)))\<^sup>2 / 4)))"
  by (simp add: haversine_def request_60_def ambulance_east_def coalesce_def
        calculateDistance_def Let_def cos_60 power2_eq_square)


lemma haversine_north60:
  "haversine request_60 ambulance_north60 =
     6371 * (2 * atan2 (sqrt ((sin (3 * (pi / 7200)))\<^sup>2))
                       (sqrt (1 - (sin (3 * (pi / 7200)))\<^sup>2)))"
proof -
  have "(60 - 60.15) * pi / 180 / 2 = - (3 * (pi / 7200))" by simp
  then show ?thesis
    by (simp add: haversine_def request_60_def ambulance_north60_def coalesce_def
          calculateDistance_def Let_def power2_eq_square)
qed

lemma haversine_60:
  "haversine request_60 ambulance_east < haversine request_60 ambulance_north60"
proof -
  define s :: real where "s = pi / 7200"
  have s: "0 < s" "s < 1 / 2" unfolding s_def using pi_gt_zero pi_less_4 by simp_all
  have lt: "(sin (4 * s))\<^sup>2 / 4 < (sin (3 * s))\<^sup>2"
    using s by (rule quarter_sin_4_less_sin_3)
  have "3 * s < pi" using s pi_ge_two by simp
  moreover have "0 < 3 * s" using s by simp
  ultimately have p: "0 < sin (3 * s)" by (rule sin_gt_zero [rotated])
  have "sin (3 * s) \<le> 3 * s" using s by (intro sin_x_le_x) simp
  moreover have "3 * s < 1" unfolding s_def using pi_less_4 by simp
  ultimately have "sin (3 * s) < 1" by simp
  then have "(sin (3 * s))\<^sup>2 < 1\<^sup>2" using p by (intro power_strict_mono) simp_all
  then have b: "(sin (3 * s))\<^sup>2 < 1" by simp
  have "atan2 (sqrt ((sin (4 * s))\<^sup>2 / 4)) (sqrt (1 - (sin (4 * s))\<^sup>2 / 4))
      < atan2 (sqrt ((sin (3 * s))\<^sup>2)) (sqrt (1 - (sin (3 * s))\<^sup>2))"
    using lt b by (intro atan2_sqrt_mono) simp_all
  then show ?thesis unfolding haversine_east haversine_north60 s_def by simp
qed

lemma distance_east: "distance request_60 ambulance_east = 0.2"
proof -
  have "sqrt ((0.2::real)\<^sup>2) = 0.2" by simp
  then show ?thesis
    by (simp add: distance_def coalesce_def request_60_def ambulance_east_def power2_eq_square)
qed

lemma distance_north60: "distance request_60 ambulance_north60 = 0.15"
proof -
  have "sqrt ((0.15::real)\<^sup>2) = 0.15" by simp
  then show ?thesis
    by (simp add: distance_def coalesce_def request_60_def ambulance_north60_def
          power2_eq_square)
qed

lemma nearest_60:
  "nearest_ambulance [ambulance_east, ambulance_north60] request_60 = Some ambulance_north60"
proof -
  have "filter candidate [ambulance_east, ambulance_north60] =
      [ambulance_east, ambulance_north60]"
    by (simp add: candidate_def ambulance_east_def ambulance_north60_def)
  then show ?thesis
    by (simp add: nearest_ambulance_def distance_east distance_north60)
qed

text \<open>
  Claim C1 as stated fails: the trigger does not minimise the haversine distance. For a
  request at latitude 60, longitude 10, the ambulance 0.2 degrees of longitude to the east
  is nearer on the ground than the one 0.15 degrees of latitude to the north (a degree of
  longitude is half as long as a degree of latitude there); both are candidates, and the
  trigger assigns the northern one, whose coordinates differ by less.
\<close>

theorem dispatch_not_haversine_nearest:
  "status request_60 = Pending \<and> assigned_ambulance_id request_60 = None \<and>
   candidate ambulance_east \<and>
   haversine request_60 ambulance_east < haversine request_60 ambulance_north60 \<and>
   assigned_ambulance_id
     (fst (auto_dispatch_ambulance 10 [ambulance_east, ambulance_north60] request_60)) =
     Some (amb_id ambulance_north60)"
proof -
  have "assigned_ambulance_id
     (fst (auto_dispatch_ambulance 10 [ambulance_east, ambulance_north60] request_60)) =
     Some (amb_id ambulance_north60)"
    by (simp add: auto_dispatch_ambulance_def nearest_60) (simp add: request_60_def)
  moreover have "candidate ambulance_east" by (simp add: candidate_def ambulance_east_def)
  moreover have "status request_60 = Pending \<and> assigned_ambulance_id request_60 = None"
    by (simp add: request_60_def)
  ultimately show ?thesis using haversine_60 by simp
qed

text \<open>
  The same across the antimeridian: for a request at latitude 0, longitude 180, the
  ambulance at longitude -180 is at the very same place (great-circle distance 0), the
  other one a degree of latitude away; the trigger assigns the second, whose coordinates
  differ by 1 where the first's differ by 360.
\<close>

lemma haversine_west: "haversine request_meridian ambulance_west = 0"
  by (simp add: haversine_def request_meridian_def ambulance_west_def coalesce_def
        calculateDistance_def Let_def atan2_def)

lemma haversine_north: "0 < haversine request_meridian ambulance_north"
proof -
  have s: "0 < sin (pi / 360)" by (rule sin_gt_zero) (use pi_gt_zero in simp_all)
  have c: "0 < cos (pi / 360)" by (rule cos_gt_zero) (use pi_gt_zero in simp_all)
  define a where "a = sin (pi / 360) * sin (pi / 360)"
  have a0: "0 < a" unfolding a_def using s by simp
  have "1 - a = cos (pi / 360) * cos (pi / 360)"
    unfolding a_def using sin_cos_squared_add [of "pi / 360"] by (simp add: power2_eq_square)
  then have a1: "0 < 1 - a" using c by simp
  have "0 < arctan (sqrt a / sqrt (1 - a))"
    using a0 a1 by (simp add: arctan_less_iff [of 0, simplified])
  then have "0 < atan2 (sqrt a) (sqrt (1 - a))" using a1 by (simp add: atan2_def)
  moreover have "haversine request_meridian ambulance_north =
      6371 * (2 * atan2 (sqrt a) (sqrt (1 - a)))"
    by (simp add: haversine_def request_meridian_def ambulance_north_def coalesce_def
          calculateDistance_def Let_def a_def)
  ultimately show ?thesis by simp
qed

lemma nearest_meridian:
  "nearest_ambulance [ambulance_west, ambulance_north] request_meridian = Some ambulance_north"
  by (simp add: nearest_ambulance_def candidate_def distance_def coalesce_def
        request_meridian_def ambulance_west_def ambulance_north_def)

lemma dispatch_across_antimeridian:
  "status request_meridian = Pending \<and> assigned_ambulance_id request_meridian = None \<and>
   candidate ambulance_west \<and>
   haversine request_meridian ambulance_west < haversine request_meridian ambulance_north \<and>
   assigned_ambulance_id
     (fst (auto_dispatch_ambulance 10 [ambulance_west, ambulance_north] request_meridian)) =
     Some (amb_id ambulance_north)"
proof -
  have "assigned_ambulance_id
     (fst (auto_dispatch_ambulance 10 [ambulance_west, ambulance_north] request_meridian)) =
     Some (amb_id ambulance_north)"
    by (simp add: auto_dispatch_ambulance_def nearest_meridian) (simp add: request_meridian_def)
  moreover have "candidate ambulance_west" by (simp add: candidate_def ambulance_west_def)
  moreover have "status request_meridian = Pending \<and>
      assigned_ambulance_id request_meridian = None"
    by (simp add: request_meridian_def)
  ultimately show ?thesis using haversine_west haversine_north by simp
qed

subsection \<open>The guard of the trigger\<close>

text \<open>
  Claim C3. On a request that is not pending, or that has an assigned ambulance, the
  trigger returns the request and the ambulance table unchanged. Hence running the
  trigger again on its own result changes nothing, whatever the first run did.
\<close>

theorem dispatch_guard_noop:
  "(status new \<noteq> Pending \<or> assigned_ambulance_id new \<noteq> None \<longrightarrow>
      auto_dispatch_ambulance now pool new = (new, pool)) \<and>
   auto_dispatch_ambulance now' (snd (auto_dispatch_ambulance now pool new))
     (fst (auto_dispatch_ambulance now pool new)) = auto_dispatch_ambulance now pool new"
  by (simp add: auto_dispatch_ambulance_def split: option.splits)

text \<open>
  The theorem on request 100 once it is assigned, with an available ambulance in the
  table: the trigger leaves both alone.
\<close>

theorem dispatch_guard_noop_witness:
  "status assigned_100 \<noteq> Pending \<and> candidate ambulance_2 \<and>
   auto_dispatch_ambulance 20 [ambulance_2] assigned_100 = (assigned_100, [ambulance_2])"
proof -
  have "status assigned_100 \<noteq> Pending" by (simp add: rows)
  moreover have "candidate ambulance_2" by (simp add: candidate_def rows)
  ultimately show ?thesis
    using dispatch_guard_noop [of assigned_100 20 "[ambulance_2]" 20] by blast
qed

subsection \<open>Null coordinates\<close>

lemma insort_key_map:
  "insort_key f (g x) (map g xs) = map g (insort_key (\<lambda>y. f (g y)) x xs)"
  by (induction xs) simp_all

lemma sort_key_map: "sort_key f (map g xs) = map g (sort_key (\<lambda>y. f (g y)) xs)"
  by (induction xs) (simp_all add: insort_key_map)

lemma distance_at_fallback: "distance new (at_fallback a) = distance new a"
  by (simp add: distance_def at_fallback_def coalesce_def split: option.splits)

lemma candidate_at_fallback: "candidate (at_fallback a) = candidate a"
  by (simp add: candidate_def at_fallback_def)

lemma nearest_at_fallback:
  "nearest_ambulance (map at_fallback pool) new = map_option at_fallback (nearest_ambulance pool new)"
proof -
  have "filter candidate (map at_fallback pool) = map at_fallback (filter candidate pool)"
    by (simp add: filter_map o_def candidate_at_fallback)
  then have "sort_key (distance new) (filter candidate (map at_fallback pool)) =
      map at_fallback (sort_key (distance new) (filter candidate pool))"
    by (simp add: sort_key_map distance_at_fallback)
  then show ?thesis
    by (simp add: nearest_ambulance_def split: list.splits)
qed

text \<open>
  Claim C10. In the trigger's distance, a null coordinate counts as its fallback value:
  an ambulance with both coordinates null is treated as located at latitude 9.0579,
  longitude 7.4951. Whether an ambulance is a candidate does not depend on its
  coordinates, and replacing every null coordinate of the table by the fallback value
  leaves the selection as it is.
\<close>

theorem null_coordinates_fallback:
  "(current_lat a = None \<and> current_lng a = None \<longrightarrow>
      at_fallback a = a\<lparr>current_lat := Some 9.0579, current_lng := Some 7.4951\<rparr> \<and>
      distance new a = sqrt ((9.0579 - location_lat new)\<^sup>2 + (7.4951 - location_lng new)\<^sup>2)) \<and>
   distance new (at_fallback a) = distance new a \<and>
   candidate (a\<lparr>current_lat := lat, current_lng := lng\<rparr>) = candidate a \<and>
   nearest_ambulance (map at_fallback pool) new =
     map_option at_fallback (nearest_ambulance pool new)"
  by (simp add: nearest_at_fallback distance_at_fallback)
     (simp add: at_fallback_def distance_def candidate_def coalesce_def)

text \<open>
  The theorem on an ambulance without coordinates: it is a candidate, at distance
  \<open>sqrt (0.0231\<^sup>2 + 0.0941\<^sup>2)\<close> of request 100, and selected before ambulance 22.
\<close>

theorem null_coordinates_fallback_witness:
  "current_lat ambulance_new = None \<and> current_lng ambulance_new = None \<and>
   candidate ambulance_new \<and>
   distance request_100 ambulance_new = sqrt (938842 / 100000000) \<and>
   nearest_ambulance [ambulance_new, ambulance_2] request_100 = Some ambulance_new"
proof -
  have n: "current_lat ambulance_new = None \<and> current_lng ambulance_new = None"
    by (simp add: ambulance_new_def)
  have c: "candidate ambulance_new" by (simp add: candidate_def ambulance_new_def)
  from null_coordinates_fallback [of ambulance_new request_100 None None "[]"] n
  have "distance request_100 ambulance_new =
      sqrt ((9.0579 - location_lat request_100)\<^sup>2 + (7.4951 - location_lng request_100)\<^sup>2)"
    by blast
  then have d: "distance request_100 ambulance_new = sqrt (938842 / 100000000)"
    by (simp add: request_100_def power2_eq_square)
  have "filter candidate [ambulance_new, ambulance_2] = [ambulance_new, ambulance_2]"
    by (simp add: candidate_def ambulance_new_def ambulance_2_def)
  then have "nearest_ambulance [ambulance_new, ambulance_2] request_100 = Some ambulance_new"
    by (simp only: nearest_ambulance_def) (simp add: d distance_2)
  with n c d show ?thesis by simp
qed

subsection \<open>The two assignment columns\<close>

lemma nearest_candidate:
  assumes "nearest_ambulance pool new = Some n"
  shows "n \<in> set pool" and "candidate n"
  using nearest_Some_minimal(1) [OF assms] by simp_all

text \<open>
  The \<open>INSERT\<close> of the request form never fails on the foreign key: the row it stores
  references no ambulance, or the one the trigger has just selected from the table.
\<close>

lemma insert_request_unfold:
  "insert_request now new_id digest n d =
     (let dispatched = auto_dispatch_ambulance now (ambulances d)
                         (generate_tracking_code digest (insert_defaults now new_id n));
          new2 = fst dispatched
      in if req_id new2 \<in> set (map req_id (emergency_requests d)) \<or>
            tracking_code new2 \<in> set (map tracking_code (emergency_requests d))
         then Inl Unique_violation
         else Inr (d\<lparr>ambulances := snd dispatched,
                     emergency_requests := emergency_requests d @ [new2]\<rparr>))"
proof (cases rule: dispatch_cases
    [of now "ambulances d" "generate_tracking_code digest (insert_defaults now new_id n)"])
  case unchanged
  then show ?thesis by (simp add: insert_request_def insert_row_def Let_def fresh_row)
next
  case (assigned a)
  from nearest_candidate(1) [OF assigned(3)] have "amb_id a \<in> amb_id ` set (ambulances d)"
    by simp
  with assigned(4) show ?thesis by (simp add: insert_request_def insert_row_def Let_def)
qed

lemma dispatch_keeps:
  "tracking_code (fst (auto_dispatch_ambulance now pool new)) = tracking_code new"
  "req_id (fst (auto_dispatch_ambulance now pool new)) = req_id new"
  by (cases rule: dispatch_cases [of now pool new]; simp)+

lemma dispatch_paired:
  assumes "paired new"
  shows "paired (fst (auto_dispatch_ambulance now pool new))"
proof (cases rule: dispatch_cases [of now pool new])
  case unchanged
  with assms show ?thesis by simp
next
  case (assigned n)
  from nearest_candidate(2) [OF assigned(3)] have "driver_id n \<noteq> None"
    by (simp add: candidate_def)
  with assigned(4) show ?thesis by (simp add: paired_def)
qed

lemma assignAmbulance_requests:
  "emergency_requests (fst (assignAmbulance now uid cache rid aid d)) = emergency_requests d \<or>
   (\<exists>drv. emergency_requests (fst (assignAmbulance now uid cache rid aid d)) =
      map (\<lambda>r. if req_id r = rid \<and> requests_policy d uid r
                then r\<lparr>assigned_ambulance_id := Some aid, assigned_driver_id := Some drv,
                       status := Assigned, updated_at := now\<rparr> else r) (emergency_requests d))"
  by (auto simp: assignAmbulance_def split: option.splits sum.splits
        dest!: update_emergency_requests_Inr update_ambulances_Inr)

lemma updateRequestStatus_requests:
  "emergency_requests (fst (updateRequestStatus now client_now dash rid v d)) =
      map (\<lambda>r. if req_id r = rid \<and> requests_policy d (driver_user dash) r
                then r\<lparr>status := v,
                       completed_at := (if v = Completed then Some client_now else None),
                       updated_at := now\<rparr> else r) (emergency_requests d)"
  by (auto simp: updateRequestStatus_def Let_def update_emergency_requests_total
        split: option.splits sum.splits dest!: update_ambulances_Inr)

lemma call_paired:
  assumes "call d d'" and "list_all paired (emergency_requests d)"
  shows "list_all paired (emergency_requests d')"
  using assms
proof cases
  case (call_insert now new_id digest n)
  from call_insert obtain new pool where
    run: "auto_dispatch_ambulance now (ambulances d)
       (generate_tracking_code digest (insert_defaults now new_id n)) = (new, pool)"
    and d': "d' = d\<lparr>ambulances := pool, emergency_requests := emergency_requests d @ [new]\<rparr>"
    by (rule insert_request_Inr)
  have "paired (generate_tracking_code digest (insert_defaults now new_id n))"
    by (simp add: paired_def fresh_row)
  from dispatch_paired [OF this, of now "ambulances d"] run have "paired new" by simp
  with assms(2) d' show ?thesis by simp
next
  case (call_assign now uid cache rid aid)
  with assignAmbulance_requests [of now uid cache rid aid d] assms(2)
  show ?thesis by (auto simp: list_all_iff paired_def)
next
  case (call_update now client_now dash rid v)
  with assms(2) show ?thesis
    by (auto simp: updateRequestStatus_requests list_all_iff paired_def)
qed

text \<open>
  Claim C8, as amended. The three operations of the pages (the \<open>INSERT\<close> of the request
  form with its triggers, \<open>assignAmbulance\<close>, \<open>updateRequestStatus\<close>), on any arguments
  and over any dashboard state, keep every request's \<open>assigned_ambulance_id\<close> and
  \<open>assigned_driver_id\<close> both null or both non-null: the trigger and \<open>assignAmbulance\<close>
  set the two together (the driver of a candidate, and of an ambulance the administrator
  may assign, is not null), and \<open>updateRequestStatus\<close> sets neither.
\<close>

theorem assignment_columns_paired:
  assumes "call\<^sup>*\<^sup>* d d'" and "list_all paired (emergency_requests d)"
  shows "list_all paired (emergency_requests d')"
  using assms by (induction rule: rtranclp_induct) (auto intro: call_paired)

lemma solo_run: "call\<^sup>*\<^sup>* solo_db solo_5"
proof -
  have "call solo_db solo_1" using solo_step_1 by (rule call_insert)
  moreover have "call solo_1 solo_2" using solo_step_2 by (rule call_insert)
  moreover have "call solo_2 solo_3"
    using call_update [of solo_2 30 30 dashboard_11 100 Completed] by (simp add: solo_step_3)
  moreover have "call solo_3 solo_4" using solo_step_4 by (rule call_insert)
  moreover have "call solo_4 solo_5"
    using call_assign [of solo_4 50 10 "admin_ambulances dashboard_admin" 101 21]
    by (simp add: solo_step_5)
  ultimately show ?thesis by simp
qed

text \<open>
  The theorem on the run of the one-ambulance system: three requests, assigned by the
  trigger, by the trigger, and by the administrator.
\<close>

theorem assignment_columns_paired_witness:
  "call\<^sup>*\<^sup>* solo_db solo_5 \<and> list_all paired (emergency_requests solo_db) \<and>
   list_all paired (emergency_requests solo_5) \<and>
   map assigned_ambulance_id (emergency_requests solo_5) = [Some 21, Some 21, Some 21] \<and>
   map assigned_driver_id (emergency_requests solo_5) = [Some 11, Some 11, Some 11]"
proof -
  have start: "list_all paired (emergency_requests solo_db)" by (simp add: solo_db_def)
  from assignment_columns_paired [OF solo_run start] solo_run start show ?thesis
    by (simp add: solo_5_def solo_db_def rows)
qed

text \<open>An \<open>INSERT\<close> through the API of a row that is paired as sent keeps the pairing too.\<close>

lemma insert_row_paired:
  assumes "insert_row now digest row d = Inr d'"
      and "paired row" and "list_all paired (emergency_requests d)"
  shows "list_all paired (emergency_requests d')"
proof -
  have "paired (generate_tracking_code digest row)"
    using assms(2) by (simp add: paired_def generate_tracking_code_def)
  from dispatch_paired [OF this, of now "ambulances d"] assms(1,3) show ?thesis
    by (auto simp: insert_row_def Let_def split: if_splits)
qed

text \<open>
  Claim C8 as stated fails: not every operation that sets one of the two columns sets the
  other, and a state with an unpaired request is reachable. The \<open>INSERT\<close> policy
  restricts neither column, and the trigger's guard returns a row that has an ambulance
  as it was sent. In the provisioned one-ambulance system, an \<open>INSERT\<close> that sends
  \<open>assigned_ambulance_id = 21\<close> and no driver is accepted, and the row is stored with
  ambulance 21 and no driver.
\<close>

theorem insert_stores_ambulance_without_driver:
  "provisioned solo_db \<and>
   insert_row 10 digest_1 ((insert_defaults 10 100 form_1)\<lparr>assigned_ambulance_id := Some 21\<rparr>)
     solo_db = Inr solo_unpaired \<and>
   map amb_id (ambulances solo_db) = [21] \<and>
   map assigned_ambulance_id (emergency_requests solo_unpaired) = [Some 21] \<and>
   map assigned_driver_id (emergency_requests solo_unpaired) = [None] \<and>
   \<not> list_all paired (emergency_requests solo_unpaired)"
  using unpaired_step
  by (simp add: provisioned_def paired_def solo_unpaired_def request_unpaired_def solo_db_def rows)

subsection \<open>Tracking codes\<close>

lemma upper_hex_digits: "map upper_char ''0123456789abcdef'' = ''0123456789ABCDEF''"
  by (simp add: upper_char_def)

lemma upper_hex_digit: "upper_alnum (upper_char (hex_digit n))"
proof -
  have "n mod 16 < length ''0123456789abcdef''" by simp
  then have "upper_char (''0123456789abcdef'' ! (n mod 16)) =
      map upper_char ''0123456789abcdef'' ! (n mod 16)"
    by (rule nth_map [symmetric])
  also have "\<dots> \<in> set ''0123456789ABCDEF''"
    unfolding upper_hex_digits by (rule nth_mem) simp
  finally show ?thesis by (auto simp: hex_digit_def upper_alnum_def)
qed

lemma generated_code_format:
  "tracking_code_format (''SC-'' @ map upper_char (take 8 (md5_text digest)))"
proof -
  have "length (md5_text digest) = 32" by (simp add: md5_text_def)
  moreover have "list_all upper_alnum (map upper_char (take 8 (md5_text digest)))"
    by (simp add: list_all_iff md5_text_def take_map upper_hex_digit)
  ultimately show ?thesis by (simp add: tracking_code_format_def)
qed

lemma insert_request_row:
  assumes "insert_request now new_id digest n d = Inr d'"
  shows "\<exists>r. emergency_requests d' = emergency_requests d @ [r] \<and>
           tracking_code r = ''SC-'' @ map upper_char (take 8 (md5_text digest)) \<and>
           tracking_code r \<notin> set (map tracking_code (emergency_requests d))"
proof -
  from assms obtain new pool where
    run: "auto_dispatch_ambulance now (ambulances d)
       (generate_tracking_code digest (insert_defaults now new_id n)) = (new, pool)"
    and d': "d' = d\<lparr>ambulances := pool, emergency_requests := emergency_requests d @ [new]\<rparr>"
    and fresh: "tracking_code new \<notin> tracking_code ` set (emergency_requests d)"
    by (rule insert_request_Inr)
  from dispatch_keeps(1) [of now "ambulances d"
      "generate_tracking_code digest (insert_defaults now new_id n)"] run
  have "tracking_code new = ''SC-'' @ map upper_char (take 8 (md5_text digest))"
    by (simp add: fresh_row)
  with d' fresh show ?thesis by simp
qed

lemma call_codes:
  assumes "call d d'"
  shows "map tracking_code (emergency_requests d') = map tracking_code (emergency_requests d) \<or>
         (\<exists>c. map tracking_code (emergency_requests d') =
                 map tracking_code (emergency_requests d) @ [c] \<and>
               tracking_code_format c \<and> c \<notin> set (map tracking_code (emergency_requests d)))"
  using assms
proof cases
  case (call_insert now new_id digest n)
  from insert_request_row [OF call_insert] generated_code_format [of digest]
  show ?thesis by auto
next
  case (call_assign now uid cache rid aid)
  have "map tracking_code (emergency_requests d') = map tracking_code (emergency_requests d)"
    using assignAmbulance_requests [of now uid cache rid aid d] call_assign
    by (auto simp: o_def)
  then show ?thesis ..
next
  case (call_update now client_now dash rid v)
  have "map tracking_code (emergency_requests d') = map tracking_code (emergency_requests d)"
    using call_update by (simp add: updateRequestStatus_requests o_def)
  then show ?thesis ..
qed

lemma calls_codes:
  assumes "call\<^sup>*\<^sup>* d d'"
  shows "(\<exists>new. map tracking_code (emergency_requests d') =
                 map tracking_code (emergency_requests d) @ new \<and>
               list_all tracking_code_format new) \<and>
         (distinct (map tracking_code (emergency_requests d)) \<longrightarrow>
            distinct (map tracking_code (emergency_requests d')))"
  using assms
proof (induction rule: rtranclp_induct)
  case base
  show ?case by simp
next
  case (step y z)
  from step.IH obtain new where
    new: "map tracking_code (emergency_requests y) = map tracking_code (emergency_requests d) @ new"
      "list_all tracking_code_format new" by blast
  from call_codes [OF step.hyps(2)] show ?case
  proof
    assume "map tracking_code (emergency_requests z) = map tracking_code (emergency_requests y)"
    with step.IH show ?thesis by simp
  next
    assume "\<exists>c. map tracking_code (emergency_requests z) =
                 map tracking_code (emergency_requests y) @ [c] \<and>
               tracking_code_format c \<and> c \<notin> set (map tracking_code (emergency_requests y))"
    then obtain c where c: "map tracking_code (emergency_requests z) =
        map tracking_code (emergency_requests y) @ [c]" "tracking_code_format c"
        "c \<notin> set (map tracking_code (emergency_requests y))" by blast
    have "map tracking_code (emergency_requests z) =
        map tracking_code (emergency_requests d) @ (new @ [c])"
      using c(1) new(1) by simp
    moreover have "list_all tracking_code_format (new @ [c])" using new(2) c(2) by simp
    moreover have "distinct (map tracking_code (emergency_requests d)) \<longrightarrow>
        distinct (map tracking_code (emergency_requests z))"
      using step.IH c(1,3) by simp
    ultimately show ?thesis by blast
  qed
qed

text \<open>
  Claim C9. Every insert that succeeds stores the code the trigger generates, whether or
  not the insert supplied one: \<open>SC-\<close> and the first eight hexadecimal digits of the
  digest in upper case, which matches \<open>SC-[A-Z0-9]{8}\<close>. Over any run of the operations
  the codes of the rows already stored stay as they are, the rows added carry codes of
  that format, and codes that were distinct stay distinct (an insert whose code is
  already stored is refused).
\<close>

theorem tracking_code_generated:
  "(insert_request now new_id digest n d = Inr d1 \<longrightarrow>
      (\<exists>r. emergency_requests d1 = emergency_requests d @ [r] \<and>
           tracking_code r = ''SC-'' @ map upper_char (take 8 (md5_text digest)) \<and>
           tracking_code_format (tracking_code r))) \<and>
   (call\<^sup>*\<^sup>* d d' \<longrightarrow>
      (\<exists>new. map tracking_code (emergency_requests d') =
                 map tracking_code (emergency_requests d) @ new \<and>
               list_all tracking_code_format new) \<and>
      (distinct (map tracking_code (emergency_requests d)) \<longrightarrow>
         distinct (map tracking_code (emergency_requests d'))))"
proof -
  have "insert_request now new_id digest n d = Inr d1 \<longrightarrow>
      (\<exists>r. emergency_requests d1 = emergency_requests d @ [r] \<and>
           tracking_code r = ''SC-'' @ map upper_char (take 8 (md5_text digest)) \<and>
           tracking_code_format (tracking_code r))"
    using insert_request_row [of now new_id digest n d d1] generated_code_format [of digest]
    by auto
  then show ?thesis using calls_codes [of d d'] by blast
qed

text \<open>The theorem on the run of the one-ambulance system.\<close>

theorem tracking_code_generated_witness:
  "insert_request 10 100 digest_1 form_1 solo_db = Inr solo_1 \<and>
   call\<^sup>*\<^sup>* solo_db solo_5 \<and>
   distinct (map tracking_code (emergency_requests solo_db)) \<and>
   tracking_code (hd (emergency_requests solo_1)) = ''SC-A1B2C3D4'' \<and>
   tracking_code_format ''SC-A1B2C3D4'' \<and>
   map tracking_code (emergency_requests solo_5) =
     [''SC-A1B2C3D4'', ''SC-0F9E8D7C'', ''SC-5566AABB''] \<and>
   distinct (map tracking_code (emergency_requests solo_5))"
proof -
  have start: "distinct (map tracking_code (emergency_requests solo_db))"
    by (simp add: solo_db_def)
  have first: "emergency_requests solo_1 = emergency_requests solo_db @ [assigned_100]"
    by (simp add: solo_1_def solo_db_def)
  have code: "tracking_code assigned_100 = ''SC-A1B2C3D4''" by (simp add: rows)
  from tracking_code_generated [of 10 100 digest_1 form_1 solo_db solo_1 solo_5]
    solo_step_1 solo_run start
  have "tracking_code_format (tracking_code assigned_100)"
    and "distinct (map tracking_code (emergency_requests solo_5))"
    by (auto simp: first)
  moreover have "map tracking_code (emergency_requests solo_5) =
     [''SC-A1B2C3D4'', ''SC-0F9E8D7C'', ''SC-5566AABB'']"
    by (simp add: solo_5_def solo_db_def rows)
  moreover have "tracking_code (hd (emergency_requests solo_1)) = ''SC-A1B2C3D4''"
    by (simp add: solo_1_def solo_db_def rows)
  ultimately show ?thesis using solo_step_1 solo_run start code by simp
qed

subsection \<open>What a driver's status update does\<close>

lemma ambulances_policy_frame:
  "ambulances_policy (d\<lparr>emergency_requests := rs\<rparr>) uid a = ambulances_policy d uid a"
  by (simp add: ambulances_policy_def has_role_def)

lemma updateRequestStatus_toast:
  "snd (updateRequestStatus now client_now dash rid v d) = Toast_success ''Status updated''"
  by (simp add: updateRequestStatus_def Let_def update_emergency_requests_total
        split: option.splits sum.splits)

lemma updateRequestStatus_ambulances:
  "ambulances (fst (updateRequestStatus now client_now dash rid v d)) =
     (case driver_ambulance dash of
        None \<Rightarrow> ambulances d
      | Some amb \<Rightarrow>
          map (\<lambda>a. if amb_id a = amb_id amb \<and> ambulances_policy d (driver_user dash) a
                    then (case (if v = Arrived
                                then find (\<lambda>r. req_id r = rid) (driver_requests dash)
                                else None) of
                            None \<Rightarrow> a\<lparr>amb_status := ambStatus v, amb_updated_at := now\<rparr>
                          | Some req \<Rightarrow>
                              a\<lparr>amb_status := ambStatus v,
                                current_lat := Some (location_lat req),
                                current_lng := Some (location_lng req),
                                amb_updated_at := now\<rparr>)
                    else a) (ambulances d))"
proof (cases "driver_ambulance dash")
  case None
  then show ?thesis
    by (simp add: updateRequestStatus_def Let_def update_emergency_requests_total)
next
  case (Some amb)
  define request where
    "request = (if v = Arrived then find (\<lambda>r. req_id r = rid) (driver_requests dash) else None)"
  define updateData :: "ambulance \<Rightarrow> ambulance" where
    "updateData = (\<lambda>a. case request of
        None \<Rightarrow> a\<lparr>amb_status := ambStatus v\<rparr>
      | Some req \<Rightarrow> a\<lparr>amb_status := ambStatus v, current_lat := Some (location_lat req),
                       current_lng := Some (location_lng req)\<rparr>)"
  have keep: "driver_id (updateData a) = driver_id a" for a
    by (simp add: updateData_def split: option.splits)
  have amb: "update_ambulances now uid aid updateData d1 =
      Inr (d1\<lparr>ambulances :=
             map (\<lambda>a. if amb_id a = aid \<and> ambulances_policy d1 uid a
                       then (updateData a)\<lparr>amb_updated_at := now\<rparr> else a)
               (ambulances d1)\<rparr>)" for uid aid d1
    by (rule update_ambulances_total) (rule keep)
  have run: "fst (updateRequestStatus now client_now dash rid v d) =
      (d\<lparr>emergency_requests :=
           map (\<lambda>r. if req_id r = rid \<and> requests_policy d (driver_user dash) r
                     then r\<lparr>status := v,
                            completed_at := (if v = Completed then Some client_now else None),
                            updated_at := now\<rparr> else r) (emergency_requests d)\<rparr>)
        \<lparr>ambulances :=
           map (\<lambda>a. if amb_id a = amb_id amb \<and> ambulances_policy d (driver_user dash) a
                     then (updateData a)\<lparr>amb_updated_at := now\<rparr> else a) (ambulances d)\<rparr>"
    using Some
    by (simp add: updateRequestStatus_def Let_def update_emergency_requests_total
          amb [unfolded updateData_def request_def] updateData_def request_def
          ambulances_policy_frame)
  have "(updateData a)\<lparr>amb_updated_at := now\<rparr> =
      (case request of
         None \<Rightarrow> a\<lparr>amb_status := ambStatus v, amb_updated_at := now\<rparr>
       | Some req \<Rightarrow> a\<lparr>amb_status := ambStatus v, current_lat := Some (location_lat req),
                       current_lng := Some (location_lng req), amb_updated_at := now\<rparr>)" for a
    by (simp add: updateData_def split: option.splits)
  then show ?thesis
    using Some by (simp add: run request_def)
qed

text \<open>
  Claim C7, as amended. A status update by a user who is neither the assigned driver of
  the request nor an administrator changes no request row: the row fails the policy's
  \<open>USING\<close> expression, the \<open>UPDATE\<close> matches no row, and the API reports no error, so that
  the dashboard shows its success message.
\<close>

theorem unassigned_driver_update_changes_no_request:
  assumes "\<not> has_role d (driver_user dash) Admin"
      and "\<forall>r \<in> set (emergency_requests d).
             req_id r = rid \<longrightarrow> assigned_driver_id r \<noteq> Some (driver_user dash)"
  shows "emergency_requests (fst (updateRequestStatus now client_now dash rid v d)) =
           emergency_requests d \<and>
         snd (updateRequestStatus now client_now dash rid v d) = Toast_success ''Status updated''"
proof -
  have "map (\<lambda>r. if req_id r = rid \<and> requests_policy d (driver_user dash) r
                  then r\<lparr>status := v,
                         completed_at := (if v = Completed then Some client_now else None),
                         updated_at := now\<rparr> else r) (emergency_requests d) =
        map (\<lambda>r. r) (emergency_requests d)"
    using assms by (intro map_cong) (auto simp: requests_policy_def)
  then show ?thesis
    by (simp add: updateRequestStatus_requests updateRequestStatus_toast)
qed

lemma fleet_intrusion:
  "updateRequestStatus 30 30 dashboard_12 100 En_route fleet_1 =
     (fleet_1\<lparr>ambulances :=
         [ambulance_1\<lparr>amb_status := Busy, amb_updated_at := 10\<rparr>,
          ambulance_2\<lparr>amb_status := Amb_en_route, amb_updated_at := 30\<rparr>]\<rparr>,
      Toast_success ''Status updated'')"
  by (simp add: updateRequestStatus_def policies ambStatus_def dashboard_12_def
        fleet_db_def fleet_1_def rows)

text \<open>
  The theorem on the specification's scenario C: request 100 is assigned to driver 11, and
  driver 12 sets it to \<open>en_route\<close>.
\<close>

theorem unassigned_driver_update_changes_no_request_witness:
  "\<not> has_role fleet_1 (driver_user dashboard_12) Admin \<and>
   emergency_requests fleet_1 = [assigned_100] \<and>
   req_id assigned_100 = 100 \<and> assigned_driver_id assigned_100 = Some 11 \<and>
   driver_user dashboard_12 = 12 \<and>
   emergency_requests (fst (updateRequestStatus 30 30 dashboard_12 100 En_route fleet_1)) =
     [assigned_100]"
proof -
  have a: "\<not> has_role fleet_1 (driver_user dashboard_12) Admin"
    by (simp add: has_role_def fleet_1_def fleet_db_def dashboard_12_def)
  have b: "\<forall>r \<in> set (emergency_requests fleet_1).
             req_id r = 100 \<longrightarrow> assigned_driver_id r \<noteq> Some (driver_user dashboard_12)"
    by (simp add: fleet_1_def fleet_db_def dashboard_12_def rows)
  have c: "emergency_requests fleet_1 = [assigned_100]" by (simp add: fleet_1_def fleet_db_def)
  from unassigned_driver_update_changes_no_request [OF a b, of 30 30 En_route] a c
  show ?thesis by (simp add: dashboard_12_def rows)
qed

text \<open>
  Claim C7 as stated fails in its last part: the rejection is not surfaced as an error.
  In scenario C (state \<open>fleet_1\<close>, reached by submitting request 100; driver 12 with the
  dashboard as fetched in that state) the request row stays as it is, the dashboard
  reports \<open>Status updated\<close>, and it goes on to set the status of driver 12's own ambulance
  to \<open>en_route\<close>.
\<close>

theorem unassigned_driver_update_reports_success:
  "insert_request 10 100 digest_1 form_1 fleet_db = Inr fleet_1 \<and>
   driver_fetchData fleet_1 (driver_mount 12) = dashboard_12 \<and>
   \<not> has_role fleet_1 12 Admin \<and>
   map assigned_driver_id (emergency_requests fleet_1) = [Some 11] \<and>
   snd (updateRequestStatus 30 30 dashboard_12 100 En_route fleet_1) =
     Toast_success ''Status updated'' \<and>
   emergency_requests (fst (updateRequestStatus 30 30 dashboard_12 100 En_route fleet_1)) =
     emergency_requests fleet_1 \<and>
   map amb_status (ambulances fleet_1) = [Busy, Available] \<and>
   map amb_status (ambulances (fst (updateRequestStatus 30 30 dashboard_12 100 En_route fleet_1))) =
     [Busy, Amb_en_route]"
proof -
  have "\<not> has_role fleet_1 12 Admin" by (simp add: has_role_def fleet_1_def fleet_db_def)
  moreover have "map assigned_driver_id (emergency_requests fleet_1) = [Some 11]"
    by (simp add: fleet_1_def fleet_db_def rows)
  moreover have "map amb_status (ambulances fleet_1) = [Busy, Available]"
    by (simp add: fleet_1_def fleet_db_def rows)
  ultimately show ?thesis
    using fleet_step fleet_fetch_12 by (simp add: fleet_intrusion)
qed

text \<open>
  The ambulance a status update changes is the one the driver's dashboard holds, read by
  \<open>fetchData\<close> as the only ambulance the user drives; \<open>updateRequestStatus\<close> never reads
  the request's \<open>assigned_ambulance_id\<close>. Where the user drives one ambulance, that is the
  one a freshly fetched dashboard holds, and the policy lets the user update it.
\<close>

lemma sole_ambulance:
  assumes pk: "distinct (map amb_id (ambulances d))"
      and only: "filter (\<lambda>a. driver_id a = Some uid) (ambulances d) = [amb]"
      and a: "a \<in> set (ambulances d)" and k: "amb_id a = amb_id amb"
  shows "ambulances_policy d uid a"
proof -
  have "amb \<in> set (filter (\<lambda>a. driver_id a = Some uid) (ambulances d))" by (simp add: only)
  then have m: "amb \<in> set (ambulances d)" and dr: "driver_id amb = Some uid" by simp_all
  from same_key_same_row [OF pk a m k] dr show ?thesis by (simp add: ambulances_policy_def)
qed

lemma fresh_dashboard:
  "driver_user (driver_fetchData d (driver_mount uid)) = uid"
  "filter (\<lambda>a. driver_id a = Some uid) (ambulances d) = [amb] \<Longrightarrow>
     driver_ambulance (driver_fetchData d (driver_mount uid)) = Some amb"
  "set (driver_requests (driver_fetchData d (driver_mount uid))) =
     {r \<in> set (emergency_requests d). assigned_driver_id r = Some uid \<and> under_way r}"
  by (auto simp: driver_fetchData_def driver_mount_def under_way_def)

text \<open>
  Completion, where the assigned driver drives the request's assigned ambulance and no
  other, from the dashboard as it has just fetched the tables: the request gets status
  \<open>completed\<close> and the browser's time as \<open>completed_at\<close>; the assigned ambulance gets
  status \<open>available\<close>; no other ambulance and no other column changes, so the
  coordinates, current and base, stay as they were.
\<close>

lemma completion_frees_assigned_ambulance:
  assumes pk: "distinct (map amb_id (ambulances d))"
      and i: "i < length (emergency_requests d)"
      and rid: "req_id (emergency_requests d ! i) = rid"
      and drv: "assigned_driver_id (emergency_requests d ! i) = Some uid"
      and aid: "assigned_ambulance_id (emergency_requests d ! i) = Some aid"
      and only: "filter (\<lambda>a. driver_id a = Some uid) (ambulances d) = [amb]"
      and amb: "amb_id amb = aid"
  shows "emergency_requests
           (fst (updateRequestStatus now client_now (driver_fetchData d (driver_mount uid))
                   rid Completed d)) ! i =
         (emergency_requests d ! i)
           \<lparr>status := Completed, completed_at := Some client_now, updated_at := now\<rparr>"
    and "ambulances
           (fst (updateRequestStatus now client_now (driver_fetchData d (driver_mount uid))
                   rid Completed d)) =
         map (\<lambda>a. if amb_id a = aid then a\<lparr>amb_status := Available, amb_updated_at := now\<rparr>
                   else a) (ambulances d)"
proof -
  show "emergency_requests
           (fst (updateRequestStatus now client_now (driver_fetchData d (driver_mount uid))
                   rid Completed d)) ! i =
         (emergency_requests d ! i)
           \<lparr>status := Completed, completed_at := Some client_now, updated_at := now\<rparr>"
    using i rid drv
    by (simp add: updateRequestStatus_requests fresh_dashboard(1) requests_policy_def)
  have "ambulances
           (fst (updateRequestStatus now client_now (driver_fetchData d (driver_mount uid))
                   rid Completed d)) =
        map (\<lambda>a. if amb_id a = amb_id amb \<and> ambulances_policy d uid a
                  then a\<lparr>amb_status := Available, amb_updated_at := now\<rparr> else a) (ambulances d)"
    by (simp add: updateRequestStatus_ambulances fresh_dashboard(1) fresh_dashboard(2) [OF only]
          ambStatus_def)
  also have "\<dots> =
        map (\<lambda>a. if amb_id a = aid then a\<lparr>amb_status := Available, amb_updated_at := now\<rparr>
                  else a) (ambulances d)"
    by (rule map_cong [OF refl]) (use sole_ambulance [OF pk only] amb in auto)
  finally show "ambulances
           (fst (updateRequestStatus now client_now (driver_fetchData d (driver_mount uid))
                   rid Completed d)) =
         map (\<lambda>a. if amb_id a = aid then a\<lparr>amb_status := Available, amb_updated_at := now\<rparr>
                   else a) (ambulances d)" .
qed

lemma completion_frees_assigned_ambulance_solo:
  "filter (\<lambda>a. driver_id a = Some 11) (ambulances solo_2) =
     [ambulance_1\<lparr>amb_status := Busy, amb_updated_at := 10\<rparr>] \<and>
   assigned_driver_id (emergency_requests solo_2 ! 0) = Some 11 \<and>
   assigned_ambulance_id (emergency_requests solo_2 ! 0) = Some 21 \<and>
   ambulances
     (fst (updateRequestStatus 30 30 (driver_fetchData solo_2 (driver_mount 11)) 100 Completed
             solo_2)) =
     map (\<lambda>a. if amb_id a = 21 then a\<lparr>amb_status := Available, amb_updated_at := 30\<rparr> else a)
       (ambulances solo_2)"
proof -
  have h: "distinct (map amb_id (ambulances solo_2))"
      "0 < length (emergency_requests solo_2)"
      "req_id (emergency_requests solo_2 ! 0) = 100"
      "assigned_driver_id (emergency_requests solo_2 ! 0) = Some 11"
      "assigned_ambulance_id (emergency_requests solo_2 ! 0) = Some 21"
      "filter (\<lambda>a. driver_id a = Some 11) (ambulances solo_2) =
         [ambulance_1\<lparr>amb_status := Busy, amb_updated_at := 10\<rparr>]"
      "amb_id (ambulance_1\<lparr>amb_status := Busy, amb_updated_at := 10\<rparr>) = 21"
    by (simp_all add: solo_2_def solo_1_def solo_db_def rows)
  from completion_frees_assigned_ambulance(2) [OF h, of 30 30] h show ?thesis by blast
qed

lemma twin_complete:
  "updateRequestStatus 30 30 dashboard_twin 100 Completed twin_1 =
     (twin_1\<lparr>emergency_requests := [completed_100]\<rparr>, Toast_success ''Status updated'')"
  by (simp add: updateRequestStatus_def policies ambStatus_def dashboard_twin_def
        twin_db_def twin_1_def rows)

text \<open>
  Claim C5: when the assigned driver advances a request to \<open>completed\<close>, the request's
  \<open>completed_at\<close> is set, the assigned ambulance's status is reset to \<open>available\<close>, and
  its coordinates are left unchanged. The code does not reset the assigned ambulance
  where the dashboard holds none: the administrator has made user 11, the driver of
  ambulance 21, the driver of ambulance 24 as well; request 100 is submitted and the
  trigger assigns it to ambulance 21 and driver 11. The driver's dashboard, freshly
  fetched, holds no ambulance (\<open>.single()\<close> finds two rows), and when the driver
  completes the request, the request becomes \<open>completed\<close> and ambulance 21 stays busy.
\<close>

theorem completion_leaves_assigned_ambulance_busy:
  "assignDriverToAmbulance 0 10 24 (Some 11) twin_db0 =
     (twin_db, Toast_success ''Driver assigned'') \<and>
   insert_request 10 100 digest_1 form_1 twin_db = Inr twin_1 \<and>
   driver_fetchData twin_1 (driver_mount 11) = dashboard_twin \<and>
   driver_offers dashboard_twin 100 Completed \<and>
   map assigned_driver_id (emergency_requests twin_1) = [Some 11] \<and>
   map assigned_ambulance_id (emergency_requests twin_1) = [Some 21] \<and>
   map status (emergency_requests
     (fst (updateRequestStatus 30 30 dashboard_twin 100 Completed twin_1))) = [Completed] \<and>
   map completed_at (emergency_requests
     (fst (updateRequestStatus 30 30 dashboard_twin 100 Completed twin_1))) = [Some 30] \<and>
   map amb_id (ambulances
     (fst (updateRequestStatus 30 30 dashboard_twin 100 Completed twin_1))) = [21, 24] \<and>
   map amb_status (ambulances
     (fst (updateRequestStatus 30 30 dashboard_twin 100 Completed twin_1))) = [Busy, Available]"
proof -
  have "driver_offers dashboard_twin 100 Completed"
    by (simp add: driver_offers_def dashboard_twin_def rows)
  then show ?thesis
    using twin_driver twin_step twin_fetch
    by (simp add: twin_complete) (simp add: twin_1_def twin_db_def rows)
qed

text \<open>
  Arrival, where the assigned driver drives the request's assigned ambulance and no
  other, from the dashboard as it has just fetched the tables: the request gets status
  \<open>arrived\<close>; the assigned ambulance gets status \<open>arrived\<close> and the request's location as
  its current coordinates; no other ambulance changes.
\<close>

lemma fresh_dashboard_request:
  assumes pkr: "distinct (map req_id (emergency_requests d))"
      and i: "i < length (emergency_requests d)"
      and drv: "assigned_driver_id (emergency_requests d ! i) = Some uid"
      and st: "under_way (emergency_requests d ! i)"
  shows "find (\<lambda>r. req_id r = req_id (emergency_requests d ! i))
           (driver_requests (driver_fetchData d (driver_mount uid))) =
         Some (emergency_requests d ! i)"
proof (cases "find (\<lambda>r. req_id r = req_id (emergency_requests d ! i))
           (driver_requests (driver_fetchData d (driver_mount uid)))")
  case None
  have "emergency_requests d ! i \<in> set (driver_requests (driver_fetchData d (driver_mount uid)))"
    using i drv st by (simp add: fresh_dashboard(3))
  with None show ?thesis by (auto simp: find_None_iff)
next
  case (Some y)
  then have "y \<in> set (driver_requests (driver_fetchData d (driver_mount uid)))"
    and k: "req_id y = req_id (emergency_requests d ! i)"
    by (auto simp: find_Some_iff)
  then have y: "y \<in> set (emergency_requests d)" by (simp add: fresh_dashboard(3))
  have "emergency_requests d ! i \<in> set (emergency_requests d)" using i by simp
  from same_key_same_row [OF pkr y this k] Some show ?thesis by simp
qed

lemma arrival_moves_assigned_ambulance:
  assumes pk: "distinct (map amb_id (ambulances d))"
      and pkr: "distinct (map req_id (emergency_requests d))"
      and i: "i < length (emergency_requests d)"
      and rid: "req_id (emergency_requests d ! i) = rid"
      and st: "under_way (emergency_requests d ! i)"
      and drv: "assigned_driver_id (emergency_requests d ! i) = Some uid"
      and aid: "assigned_ambulance_id (emergency_requests d ! i) = Some aid"
      and only: "filter (\<lambda>a. driver_id a = Some uid) (ambulances d) = [amb]"
      and amb: "amb_id amb = aid"
  shows "emergency_requests
           (fst (updateRequestStatus now client_now (driver_fetchData d (driver_mount uid))
                   rid Arrived d)) ! i =
         (emergency_requests d ! i)\<lparr>status := Arrived, completed_at := None, updated_at := now\<rparr>"
    and "ambulances
           (fst (updateRequestStatus now client_now (driver_fetchData d (driver_mount uid))
                   rid Arrived d)) =
         map (\<lambda>a. if amb_id a = aid
                   then a\<lparr>amb_status := Amb_arrived,
                          current_lat := Some (location_lat (emergency_requests d ! i)),
                          current_lng := Some (location_lng (emergency_requests d ! i)),
                          amb_updated_at := now\<rparr>
                   else a) (ambulances d)"
proof -
  show "emergency_requests
           (fst (updateRequestStatus now client_now (driver_fetchData d (driver_mount uid))
                   rid Arrived d)) ! i =
         (emergency_requests d ! i)\<lparr>status := Arrived, completed_at := None, updated_at := now\<rparr>"
    using i rid drv
    by (simp add: updateRequestStatus_requests fresh_dashboard(1) requests_policy_def)
  have f: "find (\<lambda>r. req_id r = rid) (driver_requests (driver_fetchData d (driver_mount uid))) =
      Some (emergency_requests d ! i)"
    using fresh_dashboard_request [OF pkr i drv st] by (simp only: rid)
  have "ambulances
           (fst (updateRequestStatus now client_now (driver_fetchData d (driver_mount uid))
                   rid Arrived d)) =
        map (\<lambda>a. if amb_id a = amb_id amb \<and> ambulances_policy d uid a
                  then a\<lparr>amb_status := Amb_arrived,
                         current_lat := Some (location_lat (emergency_requests d ! i)),
                         current_lng := Some (location_lng (emergency_requests d ! i)),
                         amb_updated_at := now\<rparr> else a) (ambulances d)"
    by (simp add: updateRequestStatus_ambulances fresh_dashboard(1) fresh_dashboard(2) [OF only]
          ambStatus_def f)
  also have "\<dots> =
        map (\<lambda>a. if amb_id a = aid
                  then a\<lparr>amb_status := Amb_arrived,
                         current_lat := Some (location_lat (emergency_requests d ! i)),
                         current_lng := Some (location_lng (emergency_requests d ! i)),
                         amb_updated_at := now\<rparr> else a) (ambulances d)"
    by (rule map_cong [OF refl]) (use sole_ambulance [OF pk only] amb in auto)
  finally show "ambulances
           (fst (updateRequestStatus now client_now (driver_fetchData d (driver_mount uid))
                   rid Arrived d)) =
         map (\<lambda>a. if amb_id a = aid
                   then a\<lparr>amb_status := Amb_arrived,
                          current_lat := Some (location_lat (emergency_requests d ! i)),
                          current_lng := Some (location_lng (emergency_requests d ! i)),
                          amb_updated_at := now\<rparr>
                   else a) (ambulances d)" .
qed

lemma arrival_moves_assigned_ambulance_solo:
  "filter (\<lambda>a. driver_id a = Some 11) (ambulances solo_2) =
     [ambulance_1\<lparr>amb_status := Busy, amb_updated_at := 10\<rparr>] \<and>
   under_way (emergency_requests solo_2 ! 0) \<and>
   assigned_driver_id (emergency_requests solo_2 ! 0) = Some 11 \<and>
   assigned_ambulance_id (emergency_requests solo_2 ! 0) = Some 21 \<and>
   location_lat (emergency_requests solo_2 ! 0) = 9.081 \<and>
   location_lng (emergency_requests solo_2 ! 0) = 7.401 \<and>
   ambulances
     (fst (updateRequestStatus 25 25 (driver_fetchData solo_2 (driver_mount 11)) 100 Arrived
             solo_2)) =
     map (\<lambda>a. if amb_id a = 21
               then a\<lparr>amb_status := Amb_arrived,
                      current_lat := Some (location_lat (emergency_requests solo_2 ! 0)),
                      current_lng := Some (location_lng (emergency_requests solo_2 ! 0)),
                      amb_updated_at := 25\<rparr>
               else a)
       (ambulances solo_2)"
proof -
  have h: "distinct (map amb_id (ambulances solo_2))"
      "distinct (map req_id (emergency_requests solo_2))"
      "0 < length (emergency_requests solo_2)"
      "req_id (emergency_requests solo_2 ! 0) = 100"
      "under_way (emergency_requests solo_2 ! 0)"
      "assigned_driver_id (emergency_requests solo_2 ! 0) = Some 11"
      "assigned_ambulance_id (emergency_requests solo_2 ! 0) = Some 21"
      "filter (\<lambda>a. driver_id a = Some 11) (ambulances solo_2) =
         [ambulance_1\<lparr>amb_status := Busy, amb_updated_at := 10\<rparr>]"
      "amb_id (ambulance_1\<lparr>amb_status := Busy, amb_updated_at := 10\<rparr>) = 21"
    by (simp_all add: solo_2_def solo_1_def solo_db_def under_way_def rows)
  have t: "location_lat (emergency_requests solo_2 ! 0) = 9.081"
      "location_lng (emergency_requests solo_2 ! 0) = 7.401"
    by (simp_all add: solo_2_def solo_1_def solo_db_def rows)
  from arrival_moves_assigned_ambulance(2) [OF h, of 25 25] h t show ?thesis by blast
qed

lemma twin_arrive:
  "updateRequestStatus 30 30 dashboard_twin 100 Arrived twin_1 =
     (twin_1\<lparr>emergency_requests := [assigned_100\<lparr>status := Arrived, updated_at := 30\<rparr>]\<rparr>,
      Toast_success ''Status updated'')"
  by (simp add: updateRequestStatus_def policies ambStatus_def dashboard_twin_def
        twin_db_def twin_1_def rows)

text \<open>
  Claim C6: when the assigned driver advances a request to \<open>arrived\<close>, the assigned
  ambulance's current coordinates are overwritten with the request's location, and its
  status becomes \<open>arrived\<close>. The code does neither where the dashboard holds no
  ambulance: in the same run as for completion, when driver 11 sets request 100 to
  \<open>arrived\<close>, the request becomes \<open>arrived\<close>, and the assigned ambulance 21 keeps its
  coordinates (9.08, 7.40), not the request's (9.081, 7.401), and stays busy.
\<close>

theorem arrival_leaves_assigned_ambulance_in_place:
  "assignDriverToAmbulance 0 10 24 (Some 11) twin_db0 =
     (twin_db, Toast_success ''Driver assigned'') \<and>
   insert_request 10 100 digest_1 form_1 twin_db = Inr twin_1 \<and>
   driver_fetchData twin_1 (driver_mount 11) = dashboard_twin \<and>
   driver_offers dashboard_twin 100 Arrived \<and>
   map assigned_driver_id (emergency_requests twin_1) = [Some 11] \<and>
   map assigned_ambulance_id (emergency_requests twin_1) = [Some 21] \<and>
   map location_lat (emergency_requests twin_1) = [9.081] \<and>
   map location_lng (emergency_requests twin_1) = [7.401] \<and>
   map status (emergency_requests
     (fst (updateRequestStatus 30 30 dashboard_twin 100 Arrived twin_1))) = [Arrived] \<and>
   map amb_id (ambulances
     (fst (updateRequestStatus 30 30 dashboard_twin 100 Arrived twin_1))) = [21, 24] \<and>
   map current_lat (ambulances
     (fst (updateRequestStatus 30 30 dashboard_twin 100 Arrived twin_1))) = [Some 9.08, Some 9.03] \<and>
   map current_lng (ambulances
     (fst (updateRequestStatus 30 30 dashboard_twin 100 Arrived twin_1))) = [Some 7.40, Some 7.48] \<and>
   map amb_status (ambulances
     (fst (updateRequestStatus 30 30 dashboard_twin 100 Arrived twin_1))) = [Busy, Available]"
proof -
  have "driver_offers dashboard_twin 100 Arrived"
    by (simp add: driver_offers_def dashboard_twin_def rows)
  then show ?thesis
    using twin_driver twin_step twin_fetch
    by (simp add: twin_arrive) (simp add: twin_1_def twin_db_def rows)
qed

subsection \<open>The state invariant\<close>











text \<open>What the dashboards show after a fetch.\<close>

lemma admin_offers_fresh:
  assumes "admin_offers (admin_fetchData d) rid aid"
  obtains r0 a0 where "r0 \<in> set (emergency_requests d)" "req_id r0 = rid" "status r0 = Pending"
    "a0 \<in> set (ambulances d)" "amb_id a0 = aid" "amb_status a0 = Available"
  using assms
  by (auto simp: admin_offers_def admin_fetchData_def list_ex_iff dest: in_set_takeD)

lemma driver_offers_fresh:
  assumes "driver_offers (driver_fetchData d (driver_mount uid)) rid v"
  obtains r0 where "r0 \<in> set (emergency_requests d)" "req_id r0 = rid"
    "assigned_driver_id r0 = Some uid" "under_way r0"
    "v = En_route \<or> v = Arrived \<or> v = Completed"
  using assms
  by (auto simp: driver_offers_def driver_fetchData_def driver_mount_def list_ex_iff
        under_way_def)










lemma ui_step_call: "ui_step d d' \<Longrightarrow> call d d'"
  by (auto elim!: ui_step.cases intro: call.intros)


lemma solo_assign_fresh:
  "assignAmbulance 50 10 (admin_ambulances dashboard_admin) 101 21 solo_3 =
     (solo_3_assigned, Toast_success ''Ambulance assigned'')"
  by (simp add: assignAmbulance_def policies dashboard_admin_def
        solo_db_def solo_3_def solo_3_assigned_def rows)


lemma solo_ui_assign: "ui_step solo_3 solo_3_assigned"
proof -
  have "has_role solo_3 10 Admin" by (simp add: has_role_def solo_3_def solo_db_def)
  from ui_assign [OF this, of 101 21 50] show ?thesis
    by (simp add: solo_fetch_admin solo_offer_5 solo_assign_fresh)
qed



subsection \<open>Completed and cancelled requests\<close>

lemma closed_row_other_key:
  assumes "distinct (map req_id rs)" and "i < length rs"
      and "status (rs ! i) = Completed \<or> status (rs ! i) = Cancelled"
      and "r0 \<in> set rs" and "status r0 \<noteq> Completed" and "status r0 \<noteq> Cancelled"
  shows "req_id (rs ! i) \<noteq> req_id r0"
proof
  assume "req_id (rs ! i) = req_id r0"
  from same_key_same_row [OF assms(1) nth_mem [OF assms(2)] assms(4) this] assms(3,5,6)
  show False by auto
qed

lemma assignAmbulance_req_ids:
  "map req_id (emergency_requests (fst (assignAmbulance now uid cache rid aid d))) =
     map req_id (emergency_requests d)"
  using assignAmbulance_requests [of now uid cache rid aid d] by (auto simp: o_def)

lemma assignAmbulance_length:
  "length (emergency_requests (fst (assignAmbulance now uid cache rid aid d))) =
     length (emergency_requests d)"
  using assignAmbulance_requests [of now uid cache rid aid d] by auto

lemma assignAmbulance_other_row:
  assumes "i < length (emergency_requests d)" and "req_id (emergency_requests d ! i) \<noteq> rid"
  shows "emergency_requests (fst (assignAmbulance now uid cache rid aid d)) ! i =
           emergency_requests d ! i"
  using assignAmbulance_requests [of now uid cache rid aid d] assms by auto

lemma updateRequestStatus_req_ids:
  "map req_id (emergency_requests (fst (updateRequestStatus now client_now dash rid v d))) =
     map req_id (emergency_requests d)"
  by (auto simp: updateRequestStatus_requests o_def)

lemma updateRequestStatus_other_row:
  assumes "i < length (emergency_requests d)" and "req_id (emergency_requests d ! i) \<noteq> rid"
  shows "emergency_requests (fst (updateRequestStatus now client_now dash rid v d)) ! i =
           emergency_requests d ! i"
  using assms by (simp add: updateRequestStatus_requests)

lemma ui_step_closed:
  assumes "ui_step d d'" and "distinct (map req_id (emergency_requests d))"
      and "i < length (emergency_requests d)"
      and "status (emergency_requests d ! i) = Completed \<or>
           status (emergency_requests d ! i) = Cancelled"
  shows "distinct (map req_id (emergency_requests d')) \<and>
         i < length (emergency_requests d') \<and>
         emergency_requests d' ! i = emergency_requests d ! i"
  using assms(1)
proof cases
  case (ui_insert now new_id digest n)
  from ui_insert obtain new pool where
    "d' = d\<lparr>ambulances := pool, emergency_requests := emergency_requests d @ [new]\<rparr>"
    "req_id new \<notin> req_id ` set (emergency_requests d)"
    by (rule insert_request_Inr)
  with assms(2,3) show ?thesis by (simp add: nth_append)
next
  case (ui_assign uid rid aid now)
  from ui_assign(3) obtain r0 where
    r0: "r0 \<in> set (emergency_requests d)" "req_id r0 = rid" "status r0 = Pending"
    by (rule admin_offers_fresh)
  from closed_row_other_key [OF assms(2-4) r0(1)] r0(2,3)
  have "req_id (emergency_requests d ! i) \<noteq> rid" by simp
  from assignAmbulance_other_row [OF assms(3) this] assms(2,3) ui_assign(1)
  show ?thesis by (simp add: assignAmbulance_req_ids assignAmbulance_length)
next
  case (ui_update dash uid rid v now client_now)
  from ui_update(3) [unfolded ui_update(2)] obtain r0 where
    r0: "r0 \<in> set (emergency_requests d)" "req_id r0 = rid" "under_way r0"
    by (rule driver_offers_fresh)
  from r0(3) have "status r0 \<noteq> Completed" "status r0 \<noteq> Cancelled"
    by (auto simp: under_way_def)
  from closed_row_other_key [OF assms(2-4) r0(1) this] r0(2)
  have "req_id (emergency_requests d ! i) \<noteq> rid" by simp
  from updateRequestStatus_other_row [OF assms(3) this] assms(2,3) ui_update(1)
  show ?thesis
    by (simp add: updateRequestStatus_req_ids) (simp add: updateRequestStatus_requests)
qed

text \<open>
  Claim C4, as amended. Over any run of request creations, administrator assignments and
  driver status updates in which every assignment and update is started from a dashboard
  that has just fetched the tables and offers it, a request that is completed or
  cancelled keeps its row, and so its status, for ever: the lists offer only pending
  requests to the administrator and only requests under way to the driver.
\<close>

theorem closed_request_kept_by_fresh_dashboards:
  assumes "ui_step\<^sup>*\<^sup>* d d'" and "distinct (map req_id (emergency_requests d))"
      and "i < length (emergency_requests d)"
      and "status (emergency_requests d ! i) = Completed \<or>
           status (emergency_requests d ! i) = Cancelled"
  shows "i < length (emergency_requests d') \<and>
         emergency_requests d' ! i = emergency_requests d ! i"
proof -
  from assms(1) have "distinct (map req_id (emergency_requests d')) \<and>
      i < length (emergency_requests d') \<and>
      emergency_requests d' ! i = emergency_requests d ! i"
  proof (induction rule: rtranclp_induct)
    case base
    from assms(2,3) show ?case by simp
  next
    case (step y z)
    from step.IH assms(4) ui_step_closed [OF step.hyps(2), of i] show ?case by simp
  qed
  then show ?thesis by simp
qed

text \<open>
  The theorem on the one-ambulance system: request 100, completed in state \<open>solo_3\<close>,
  is untouched by the administrator's assignment that follows.
\<close>

theorem closed_request_kept_by_fresh_dashboards_witness:
  "ui_step\<^sup>*\<^sup>* solo_3 solo_3_assigned \<and>
   distinct (map req_id (emergency_requests solo_3)) \<and>
   (0::nat) < length (emergency_requests solo_3) \<and>
   status (emergency_requests solo_3 ! 0) = Completed \<and>
   emergency_requests solo_3_assigned ! 0 = emergency_requests solo_3 ! 0"
proof -
  have run: "ui_step\<^sup>*\<^sup>* solo_3 solo_3_assigned" using solo_ui_assign by simp
  have h: "distinct (map req_id (emergency_requests solo_3))"
    "(0::nat) < length (emergency_requests solo_3)"
    "status (emergency_requests solo_3 ! 0) = Completed \<or>
     status (emergency_requests solo_3 ! 0) = Cancelled"
    by (simp_all add: solo_3_def solo_db_def rows)
  have s: "status (emergency_requests solo_3 ! 0) = Completed"
    by (simp add: solo_3_def solo_db_def rows)
  from closed_request_kept_by_fresh_dashboards [OF run h] run h(1,2) s show ?thesis by blast
qed

text \<open>
  Claim C4 as stated fails: \<open>updateRequestStatus\<close> does not test the current status, and
  the policy lets the assigned driver update the row whatever its status. Driver 11
  completes request 100 and, from the same list of the dashboard, which has not fetched
  again, sets it to \<open>en_route\<close>: the completed request is under way again, with no
  completion time.
\<close>

theorem completed_request_reopened:
  "insert_request 10 100 digest_1 form_1 solo_db = Inr solo_1 \<and>
   insert_request 20 101 digest_2 form_2 solo_1 = Inr solo_2 \<and>
   driver_fetchData solo_2 (driver_mount 11) = dashboard_11 \<and>
   driver_offers dashboard_11 100 Completed \<and>
   fst (updateRequestStatus 30 30 dashboard_11 100 Completed solo_2) = solo_3 \<and>
   map req_id (emergency_requests solo_3) = [100, 101] \<and>
   map status (emergency_requests solo_3) = [Completed, Pending] \<and>
   driver_offers dashboard_11 100 En_route \<and>
   fst (updateRequestStatus 35 35 dashboard_11 100 En_route solo_3) = solo_3_reopened \<and>
   map req_id (emergency_requests solo_3_reopened) = [100, 101] \<and>
   map status (emergency_requests solo_3_reopened) = [En_route, Pending] \<and>
   map completed_at (emergency_requests solo_3_reopened) = [None, None]"
proof -
  have "driver_offers dashboard_11 100 En_route"
    by (simp add: driver_offers_def dashboard_11_def rows)
  moreover have "map req_id (emergency_requests solo_3) = [100, 101]"
    "map status (emergency_requests solo_3) = [Completed, Pending]"
    by (simp_all add: solo_3_def solo_db_def rows)
  moreover have "map req_id (emergency_requests solo_3_reopened) = [100, 101]"
    "map status (emergency_requests solo_3_reopened) = [En_route, Pending]"
    "map completed_at (emergency_requests solo_3_reopened) = [None, None]"
    by (simp_all add: solo_3_reopened_def solo_db_def rows)
  ultimately show ?thesis
    using solo_step_1 solo_step_2 solo_fetch_11 solo_offer_3
    by (simp add: solo_step_3 solo_reopen)
qed

end
